theory Spec2Isabelle
  imports Main
begin

section \<open>Wire messages (backend/server/handler/message.go)\<close>

text \<open>
  \<^verbatim>\<open>type MessageType string\<close>: a message type is any Go string; the six constants below are
  the ones message.go declares. Strings are byte lists, as in Go.
\<close>

type_synonym MessageType = string

definition MessageTypeTerminalInput :: MessageType where
  "MessageTypeTerminalInput = ''terminal_input''"

definition MessageTypeTerminalOutput :: MessageType where
  "MessageTypeTerminalOutput = ''terminal_output''"

definition MessageTypeTerminalError :: MessageType where
  "MessageTypeTerminalError = ''terminal_error''"

definition MessageTypeSystemMessage :: MessageType where
  "MessageTypeSystemMessage = ''system_message''"

definition MessageTypeConnectionState :: MessageType where
  "MessageTypeConnectionState = ''connection_state''"

definition MessageTypeRequestPrompt :: MessageType where
  "MessageTypeRequestPrompt = ''request_prompt''"

text \<open>
  Modelled from the spec: the constant \<^verbatim>\<open>MessageTypeConnectionRequest\<close> is used by
  websocket.go but its declaration is not among the sources; section 6 of the specification
  gives its wire value, \<^verbatim>\<open>connection_request\<close>.
\<close>

definition MessageTypeConnectionRequest :: MessageType where
  "MessageTypeConnectionRequest = ''connection_request''"

text \<open>The message types message.go declares, as a list.\<close>

definition declaredMessageTypes :: "MessageType list" where
  "declaredMessageTypes =
     [MessageTypeTerminalInput, MessageTypeTerminalOutput, MessageTypeTerminalError,
      MessageTypeSystemMessage, MessageTypeConnectionState, MessageTypeRequestPrompt]"

text \<open>\<^verbatim>\<open>ExitCode *int\<close> is a nullable pointer: an option.\<close>

record MessageMetadata =
  HasAnsi :: bool
  ExitCode :: "int option"
  Command :: string
  SSHHost :: string
  SSHUser :: string
  SessionID :: string

text \<open>
  \<^verbatim>\<open>Timestamp time.Time\<close> is kept abstract (type \<open>'t\<close>); \<^verbatim>\<open>Metadata *MessageMetadata\<close> is a
  nullable pointer.
\<close>

record 't Message =
  Type :: MessageType
  Data :: string
  Timestamp :: 't
  Metadata :: "MessageMetadata option"

type_synonym ConnectionState = string

definition ConnectionStateConnected :: ConnectionState where
  "ConnectionStateConnected = ''connected''"

definition ConnectionStateDisconnected :: ConnectionState where
  "ConnectionStateDisconnected = ''disconnected''"

definition ConnectionStateConnecting :: ConnectionState where
  "ConnectionStateConnecting = ''connecting''"

definition ConnectionStateError :: ConnectionState where
  "ConnectionStateError = ''error''"

record ConnectionStateMessage =
  State :: ConnectionState
  Message :: string

text \<open>
  \<^verbatim>\<open>NewMessage\<close> reads \<^verbatim>\<open>time.Now()\<close>; the reading is the argument \<open>now\<close>. The struct
  literal leaves \<^verbatim>\<open>Metadata\<close> nil.
\<close>

definition NewMessage :: "'t \<Rightarrow> MessageType \<Rightarrow> string \<Rightarrow> 't Message" where
  "NewMessage now msgType data =
     \<lparr>Type = msgType, Data = data, Timestamp = now, Metadata = None\<rparr>"

definition NewSystemMessage :: "'t \<Rightarrow> string \<Rightarrow> 't Message" where
  "NewSystemMessage now message = NewMessage now MessageTypeSystemMessage message"

definition NewTerminalError :: "'t \<Rightarrow> string \<Rightarrow> 't Message" where
  "NewTerminalError now errorMsg = NewMessage now MessageTypeTerminalError errorMsg"

subsection \<open>Regular expressions, as far as \<^verbatim>\<open>containsAnsiCodes\<close> uses them\<close>

text \<open>
  \<^verbatim>\<open>regexp.MustCompile\<close> and \<^verbatim>\<open>MatchString\<close> belong to Go's library. A compiled expression
  is a syntax tree; \<open>MatchString\<close> asks whether some substring of the input is in its
  language, and is computed with derivatives.
\<close>

datatype regexp =
  RNone
  | REps
  | RByte char
  | RClass "char list"
  | RAlt regexp regexp
  | RSeq regexp regexp
  | RStar regexp

fun nullable :: "regexp \<Rightarrow> bool" where
  "nullable RNone = False"
| "nullable REps = True"
| "nullable (RByte c) = False"
| "nullable (RClass cs) = False"
| "nullable (RAlt r s) = (nullable r \<or> nullable s)"
| "nullable (RSeq r s) = (nullable r \<and> nullable s)"
| "nullable (RStar r) = True"

fun deriv :: "char \<Rightarrow> regexp \<Rightarrow> regexp" where
  "deriv a RNone = RNone"
| "deriv a REps = RNone"
| "deriv a (RByte c) = (if a = c then REps else RNone)"
| "deriv a (RClass cs) = (if a \<in> set cs then REps else RNone)"
| "deriv a (RAlt r s) = RAlt (deriv a r) (deriv a s)"
| "deriv a (RSeq r s) =
     (if nullable r then RAlt (RSeq (deriv a r) s) (deriv a s) else RSeq (deriv a r) s)"
| "deriv a (RStar r) = RSeq (deriv a r) (RStar r)"

text \<open>Does the expression match a prefix of the input?\<close>

fun matchPrefix :: "regexp \<Rightarrow> string \<Rightarrow> bool" where
  "matchPrefix r [] = nullable r"
| "matchPrefix r (c # cs) = (nullable r \<or> matchPrefix (deriv c r) cs)"

text \<open>\<^verbatim>\<open>(*Regexp).MatchString\<close>: an unanchored search, so a match may start anywhere.\<close>

fun MatchString :: "regexp \<Rightarrow> string \<Rightarrow> bool" where
  "MatchString r [] = matchPrefix r []"
| "MatchString r (c # cs) = (matchPrefix r (c # cs) \<or> MatchString r cs)"


text \<open>
  \<^verbatim>\<open>regexp.MustCompile(`\x1b\[[0-9;]*[mK]`)\<close>: the byte ESC, an opening bracket, any number
  of digits and semicolons, then \<^verbatim>\<open>m\<close> or \<^verbatim>\<open>K\<close>.
\<close>

definition ansiRegex :: regexp where
  "ansiRegex =
     RSeq (RByte (CHR 0x1B))
       (RSeq (RByte (CHR ''[''))
         (RSeq (RStar (RClass ''0123456789;'')) (RClass ''mK'')))"

definition containsAnsiCodes :: "string \<Rightarrow> bool" where
  "containsAnsiCodes s = MatchString ansiRegex s"

definition NewTerminalOutput :: "'t \<Rightarrow> string \<Rightarrow> string \<Rightarrow> int option \<Rightarrow> 't Message" where
  "NewTerminalOutput now output command exitCode =
     (let msg = NewMessage now MessageTypeTerminalOutput output;
          hasAnsi = containsAnsiCodes output
      in msg\<lparr>Metadata :=
           Some \<lparr>HasAnsi = hasAnsi, ExitCode = exitCode, Command = command,
                 SSHHost = [], SSHUser = [], SessionID = []\<rparr>\<rparr>)"

text \<open>
  \<^verbatim>\<open>NewSSHTerminalOutput\<close>: the nil check on the metadata is kept, although
  \<^verbatim>\<open>NewTerminalOutput\<close> always sets it.
\<close>

definition NewSSHTerminalOutput ::
  "'t \<Rightarrow> string \<Rightarrow> string \<Rightarrow> int option \<Rightarrow> string \<Rightarrow> string \<Rightarrow> string \<Rightarrow> 't Message" where
  "NewSSHTerminalOutput now output command exitCode sshHost sshUser sessionID =
     (let msg = NewTerminalOutput now output command exitCode;
          md = (case Metadata msg of
                  None \<Rightarrow> \<lparr>HasAnsi = False, ExitCode = None, Command = [],
                            SSHHost = [], SSHUser = [], SessionID = []\<rparr>
                | Some m \<Rightarrow> m)
      in msg\<lparr>Metadata := Some (md\<lparr>SSHHost := sshHost, SSHUser := sshUser, SessionID := sessionID\<rparr>)\<rparr>)"

subsection \<open>The nested connection-state payload\<close>

text \<open>
  \<^verbatim>\<open>json.Marshal\<close> of a \<^verbatim>\<open>ConnectionStateMessage\<close> follows the struct tags
  \<^verbatim>\<open>json:"state"\<close> and \<^verbatim>\<open>json:"message,omitempty"\<close>: the fields in declaration order, the
  second left out when it is the empty string. How a Go string becomes a JSON string
  literal is the library's business: the argument \<open>quote\<close>. Marshalling two strings cannot
  fail, so the error the source discards is never there.
\<close>

definition marshalConnectionStateMessage :: "(string \<Rightarrow> string) \<Rightarrow> ConnectionStateMessage \<Rightarrow> string" where
  \<open>marshalConnectionStateMessage quote stateData =
     ''{"state":'' @ quote (State stateData)
       @ (if Message stateData = [] then [] else '',"message":'' @ quote (Message stateData))
       @ ''}''\<close>

definition NewConnectionStateMessage ::
  "(string \<Rightarrow> string) \<Rightarrow> 't \<Rightarrow> ConnectionState \<Rightarrow> string \<Rightarrow> 't Message" where
  "NewConnectionStateMessage quote now state message =
     (let stateData = \<lparr>State = state, Message = message\<rparr>;
          data = marshalConnectionStateMessage quote stateData
      in NewMessage now MessageTypeConnectionState data)"

text \<open>
  The library's string encoder on strings that need no escaping (printable ASCII without
  the double quote, the backslash and the characters it escapes for HTML): the string
  between double quotes. Used to evaluate examples.
\<close>

definition quotePlain :: "string \<Rightarrow> string" where
  \<open>quotePlain s = ''"'' @ s @ ''"''\<close>

section \<open>The connection, the clock and the library, as the handlers see them\<close>

text \<open>
  Go's \<^verbatim>\<open>error\<close> values that the handlers test against nil: an error of
  \<^verbatim>\<open>encoding/json\<close>, of \<^verbatim>\<open>conn.WriteMessage\<close>, of the shell's \<^verbatim>\<open>Connect\<close>, and the
  handler's own \<^verbatim>\<open>ErrInvalidMessageFormat\<close>.
\<close>

datatype Err =
  ErrJSON
  | ErrWrite
  | ErrConnect
  | ErrInvalidMessageFormat

text \<open>One constructor for each \<^verbatim>\<open>log.Printf\<close> and \<^verbatim>\<open>log.Println\<close> call of the handlers.\<close>

datatype LogLine =
  LogUpgradeError
  | LogNewConnection
  | LogSessionStarted
  | LogReadError
  | LogInvalidFormat
  | LogUnhandledType MessageType
  | LogConnectionRequestFailed Err
  | LogShellConnected string
  | LogMissingMetadata

text \<open>
  What the handlers call but the repository does not define: the clock (\<open>timeNow n\<close> is
  the \<open>n\<close>-th reading of \<^verbatim>\<open>time.Now()\<close>, \<open>timeZero\<close> the zero \<^verbatim>\<open>time.Time\<close>),
  \<^verbatim>\<open>encoding/json\<close> (\<open>jsonMarshal\<close> on a message, with \<open>None\<close> for an error; \<open>jsonQuote\<close>
  on a string; \<open>jsonUnmarshal\<close>, which fills the message it is given and returns it with
  the error), and the network (\<open>writeFails n\<close>: the \<open>n\<close>-th call of
  \<^verbatim>\<open>conn.WriteMessage\<close> returns an error). Every theorem about the handlers holds for
  whatever these are.
\<close>

record ('t, 'f) Lib =
  timeNow :: "nat \<Rightarrow> 't"
  timeZero :: 't
  jsonMarshal :: "'t Message \<Rightarrow> 'f option"
  jsonQuote :: "string \<Rightarrow> string"
  jsonUnmarshal :: "string \<Rightarrow> 't Message \<Rightarrow> 't Message \<times> Err option"
  writeFails :: "nat \<Rightarrow> bool"

text \<open>
  What a handler does to its connection: the frames it hands to \<^verbatim>\<open>conn.WriteMessage\<close>
  (oldest first), how often it has read the clock, the lines it has logged, and whether it
  has called \<^verbatim>\<open>conn.Close()\<close>.
\<close>

record 'f Conn =
  writes :: "'f list"
  clock :: nat
  logs :: "LogLine list"
  closed :: bool

definition newConn :: "'f Conn" where
  "newConn = \<lparr>writes = [], clock = 0, logs = [], closed = False\<rparr>"

definition now :: "('t, 'f) Lib \<Rightarrow> 'f Conn \<Rightarrow> 't \<times> 'f Conn" where
  "now lib c = (timeNow lib (clock c), c\<lparr>clock := Suc (clock c)\<rparr>)"

definition logLine :: "LogLine \<Rightarrow> 'f Conn \<Rightarrow> 'f Conn" where
  "logLine l c = c\<lparr>logs := logs c @ [l]\<rparr>"

definition WriteMessage :: "('t, 'f) Lib \<Rightarrow> 'f \<Rightarrow> 'f Conn \<Rightarrow> Err option \<times> 'f Conn" where
  "WriteMessage lib data c =
     (if writeFails lib (length (writes c)) then Some ErrWrite else None,
      c\<lparr>writes := writes c @ [data]\<rparr>)"

definition Close :: "'f Conn \<Rightarrow> 'f Conn" where
  "Close c = c\<lparr>closed := True\<rparr>"

definition ToJSON :: "('t, 'f) Lib \<Rightarrow> 't Message \<Rightarrow> 'f option" where
  "ToJSON lib m = jsonMarshal lib m"

text \<open>
  \<^verbatim>\<open>ParseMessage\<close> decodes into a zero \<^verbatim>\<open>Message\<close> and returns the message and the error,
  both, whatever the error is.
\<close>

definition zeroMessage :: "('t, 'f) Lib \<Rightarrow> 't Message" where
  "zeroMessage lib = \<lparr>Type = [], Data = [], Timestamp = timeZero lib, Metadata = None\<rparr>"

definition ParseMessage :: "('t, 'f) Lib \<Rightarrow> string \<Rightarrow> 't Message \<times> Err option" where
  "ParseMessage lib data = jsonUnmarshal lib data (zeroMessage lib)"

text \<open>
  The handlers' idiom
  \<^verbatim>\<open>if data, err := m.ToJSON(); err == nil { conn.WriteMessage(websocket.TextMessage, data) }\<close>:
  the frame is written when the encoding succeeds, and the result of the write is dropped.
\<close>

definition writeJSON :: "('t, 'f) Lib \<Rightarrow> 't Message \<Rightarrow> 'f Conn \<Rightarrow> 'f Conn" where
  "writeJSON lib m c =
     (case ToJSON lib m of
        Some data \<Rightarrow> snd (WriteMessage lib data c)
      | None \<Rightarrow> c)"

text \<open>What \<^verbatim>\<open>conn.ReadMessage()\<close> returns: an error, or a frame's payload.\<close>

datatype ReadResult = ReadError | ReadFrame string

section \<open>The simulated shell and its handler\<close>

text \<open>
  \<^verbatim>\<open>ShellSession\<close>: the \<^verbatim>\<open>conn\<close> field is the connection of the handler, passed
  next to the session.
\<close>

record ShellSession =
  currentInput :: string
  prompt :: string

definition NewShellSession :: ShellSession where
  "NewShellSession = \<lparr>currentInput = [], prompt = ''user@webssh:~$ ''\<rparr>"

definition sendOutput :: "('t, 'f) Lib \<Rightarrow> string \<Rightarrow> 'f Conn \<Rightarrow> 'f Conn" where
  "sendOutput lib data c =
     (let (t, c1) = now lib c;
          response = NewTerminalOutput t data [] None
      in writeJSON lib response c1)"

definition handleBackspace ::
  "('t, 'f) Lib \<Rightarrow> ShellSession \<times> 'f Conn \<Rightarrow> ShellSession \<times> 'f Conn" where
  "handleBackspace lib = (\<lambda>(s, c).
     if length (currentInput s) > 0
     then (s\<lparr>currentInput := take (length (currentInput s) - 1) (currentInput s)\<rparr>,
           sendOutput lib [CHR 0x08, CHR '' '', CHR 0x08] c)
     else (s, c))"

text \<open>
  \<^verbatim>\<open>strings.TrimSpace\<close>, \<^verbatim>\<open>strings.HasPrefix\<close> and \<^verbatim>\<open>strings.TrimPrefix\<close>. \<open>TrimSpace\<close> is
  modelled on ASCII: it removes tab, line feed, vertical tab, form feed, carriage return
  and space from both ends. Go also removes the multi-byte Unicode spaces, which the
  shell's buffer never holds.
\<close>

definition asciiSpace :: "char \<Rightarrow> bool" where
  "asciiSpace b = (b \<in> set [CHR 0x09, CHR 0x0A, CHR 0x0B, CHR 0x0C, CHR 0x0D, CHR '' ''])"

definition TrimSpace :: "string \<Rightarrow> string" where
  "TrimSpace s = rev (dropWhile asciiSpace (rev (dropWhile asciiSpace s)))"

definition HasPrefix :: "string \<Rightarrow> string \<Rightarrow> bool" where
  "HasPrefix s pre = (take (length pre) s = pre)"

definition TrimPrefix :: "string \<Rightarrow> string \<Rightarrow> string" where
  "TrimPrefix s pre = (if HasPrefix s pre then drop (length pre) s else s)"

definition showPrompt :: "('t, 'f) Lib \<Rightarrow> ShellSession \<Rightarrow> 'f Conn \<Rightarrow> 'f Conn" where
  "showPrompt lib s c =
     (let (t, c1) = now lib c;
          response = NewTerminalOutput t (prompt s) [] None
      in writeJSON lib response c1)"

definition executeCommand :: "('t, 'f) Lib \<Rightarrow> string \<Rightarrow> 'f Conn \<Rightarrow> 'f Conn" where
  "executeCommand lib cmd c =
     (if cmd = [] then c
      else
        (let output =
           (if cmd = ''ls'' then
              ''Desktop  Documents  Downloads  Pictures  Videos'' @ [CHR 0x0D, CHR 0x0A]
            else if cmd = ''pwd'' then ''/home/user'' @ [CHR 0x0D, CHR 0x0A]
            else if HasPrefix cmd ''echo '' then
              TrimPrefix cmd ''echo '' @ [CHR 0x0D, CHR 0x0A]
            else if cmd = ''date'' then
              ''Mon Aug 12 14:00:00 UTC 2025'' @ [CHR 0x0D, CHR 0x0A]
            else if cmd = ''whoami'' then ''user'' @ [CHR 0x0D, CHR 0x0A]
            else if cmd = ''clear'' then
              [CHR 0x1B, CHR ''['', CHR ''2'', CHR ''J'', CHR 0x1B, CHR ''['', CHR ''H'']
            else cmd @ '': command not found'' @ [CHR 0x0D, CHR 0x0A])
         in if output \<noteq> []
            then (let (t, c1) = now lib c;
                      response = NewTerminalOutput t output cmd None
                  in writeJSON lib response c1)
            else c))"

definition processCommand ::
  "('t, 'f) Lib \<Rightarrow> ShellSession \<times> 'f Conn \<Rightarrow> ShellSession \<times> 'f Conn" where
  "processCommand lib = (\<lambda>(s, c).
     let cmd = TrimSpace (currentInput s);
         (t, c1) = now lib c;
         response = NewTerminalOutput t [CHR 0x0D, CHR 0x0A] [] None;
         c2 = writeJSON lib response c1;
         c3 = executeCommand lib cmd c2;
         s' = s\<lparr>currentInput := []\<rparr>
     in (s', showPrompt lib s' c3))"

text \<open>
  \<^verbatim>\<open>HandleInput\<close>: the switch compares the whole input string; the default case takes a
  single byte from 32 to 126 and drops everything else.
\<close>

definition HandleInput ::
  "('t, 'f) Lib \<Rightarrow> string \<Rightarrow> ShellSession \<times> 'f Conn \<Rightarrow> ShellSession \<times> 'f Conn" where
  "HandleInput lib input = (\<lambda>(s, c).
     if input = [CHR 0x0D] \<or> input = [CHR 0x0A] then processCommand lib (s, c)
     else if input = [CHR 0x7F] then handleBackspace lib (s, c)
     else if length input = 1 \<and> (32::nat) \<le> of_char (input ! 0) \<and> of_char (input ! 0) \<le> (126::nat)
       then (s\<lparr>currentInput := currentInput s @ input\<rparr>, sendOutput lib input c)
     else (s, c))"

definition handleRequestPrompt ::
  "('t, 'f) Lib \<Rightarrow> ShellSession \<times> 'f Conn \<Rightarrow> ShellSession \<times> 'f Conn" where
  "handleRequestPrompt lib = (\<lambda>(s, c). (s, showPrompt lib s c))"

text \<open>
  One turn of the read loop of \<^verbatim>\<open>HandlerDeps.HandleWs\<close>, for a frame that was read: parse
  it, answer a parse error with a system message, otherwise switch on the type.
\<close>

definition HandlerDeps_frame ::
  "('t, 'f) Lib \<Rightarrow> string \<Rightarrow> ShellSession \<times> 'f Conn \<Rightarrow> ShellSession \<times> 'f Conn" where
  "HandlerDeps_frame lib p = (\<lambda>(shell, c).
     let (msg, err) = ParseMessage lib p
     in if err \<noteq> None
        then (let c1 = logLine LogInvalidFormat c;
                  (t, c2) = now lib c1;
                  errMsg = NewSystemMessage t ''Invalid message format''
              in (shell, writeJSON lib errMsg c2))
        else if Type msg = MessageTypeTerminalInput then HandleInput lib (Data msg) (shell, c)
        else if Type msg = MessageTypeRequestPrompt then handleRequestPrompt lib (shell, c)
        else (shell, logLine (LogUnhandledType (Type msg)) c))"

text \<open>
  The loop \<^verbatim>\<open>for { _, p, err := conn.ReadMessage(); ... }\<close> over what the reads return. A
  read error ends the handler (this handler does not close the connection); when the
  list is used up the handler is waiting in \<^verbatim>\<open>ReadMessage\<close>.
\<close>

fun HandlerDeps_loop ::
  "('t, 'f) Lib \<Rightarrow> ReadResult list \<Rightarrow> ShellSession \<times> 'f Conn \<Rightarrow> ShellSession \<times> 'f Conn" where
  "HandlerDeps_loop lib [] st = st"
| "HandlerDeps_loop lib (ReadError # rs) st = (fst st, logLine LogReadError (snd st))"
| "HandlerDeps_loop lib (ReadFrame p # rs) st = HandlerDeps_loop lib rs (HandlerDeps_frame lib p st)"

text \<open>
  \<^verbatim>\<open>HandlerDeps.HandleWs\<close>: \<open>upgraded\<close> says whether \<^verbatim>\<open>upgrader.Upgrade\<close> succeeded. The
  result is the shell session, if one was created, and the connection.
\<close>

definition HandlerDeps_HandleWs ::
  "('t, 'f) Lib \<Rightarrow> bool \<Rightarrow> ReadResult list \<Rightarrow> 'f Conn \<Rightarrow> ShellSession option \<times> 'f Conn" where
  "HandlerDeps_HandleWs lib upgraded reads c =
     (if \<not> upgraded then (None, logLine LogUpgradeError c)
      else
        (let c1 = logLine LogNewConnection c;
             shell = NewShellSession;
             (t, c2) = now lib c1;
             connMsg = NewConnectionStateMessage (jsonQuote lib) t ConnectionStateConnected
                         ''WebSocket connection established'';
             c3 = writeJSON lib connMsg c2;
             c4 = logLine LogSessionStarted c3;
             (shell', c5) = HandlerDeps_loop lib reads (shell, c4)
         in (Some shell', c5)))"

section \<open>The connection handler (backend/server/handler/websocket.go)\<close>

text \<open>
  \<^verbatim>\<open>ShellConnection\<close>, \<^verbatim>\<open>NewShellConnection\<close> and \<^verbatim>\<open>Connect\<close> are used by websocket.go and
  are not among the sources: the shell is a value of any type \<open>'sh\<close>, and the two
  functions are parameters. \<open>Connect\<close> holds the connection the shell was created with,
  so it is given the connection too and may change it.
\<close>

record ('sh, 'f) ShellOps =
  NewShellConnection :: 'sh
  Connect :: "MessageMetadata \<Rightarrow> 'sh \<times> 'f Conn \<Rightarrow> Err option \<times> 'sh \<times> 'f Conn"

definition handleConnectionRequest ::
  "('t, 'f) Lib \<Rightarrow> ('sh, 'f) ShellOps \<Rightarrow> 't Message \<Rightarrow> 'sh \<times> 'f Conn
     \<Rightarrow> Err option \<times> 'sh \<times> 'f Conn" where
  "handleConnectionRequest lib ops msg = (\<lambda>(shell, c).
     case Metadata msg of
       Some md \<Rightarrow>
         (let (err, shell1, c1) = Connect ops md (shell, c)
          in if err \<noteq> None then (err, shell1, c1)
             else
               (let c2 = logLine (LogShellConnected (SSHUser md)) c1;
                    (t, c3) = now lib c2;
                    connMsg = NewConnectionStateMessage (jsonQuote lib) t
                                ConnectionStateConnected ''Shell session connected''
                in case ToJSON lib connMsg of
                     None \<Rightarrow> (Some ErrJSON, shell1, c3)
                   | Some data \<Rightarrow>
                       (let (werr, c4) = WriteMessage lib data c3
                        in (werr, shell1, c4))))
     | None \<Rightarrow> (Some ErrInvalidMessageFormat, shell, logLine LogMissingMetadata c))"

text \<open>
  One turn of the read loop of \<^verbatim>\<open>Connection.HandleWs\<close>, for a frame that was read. The
  switch has one case, the connection request; every other type is logged as unhandled.
\<close>

definition Connection_frame ::
  "('t, 'f) Lib \<Rightarrow> ('sh, 'f) ShellOps \<Rightarrow> string \<Rightarrow> 'sh \<times> 'f Conn \<Rightarrow> 'sh \<times> 'f Conn" where
  "Connection_frame lib ops p = (\<lambda>(shell, c).
     let (msg, err) = ParseMessage lib p
     in if err \<noteq> None
        then (let c1 = logLine LogInvalidFormat c;
                  (t, c2) = now lib c1;
                  errMsg = NewSystemMessage t ''Invalid message format''
              in (shell, writeJSON lib errMsg c2))
        else if Type msg = MessageTypeConnectionRequest
        then (let (herr, shell1, c1) = handleConnectionRequest lib ops msg (shell, c)
              in case herr of
                   Some e \<Rightarrow>
                     (let c2 = logLine (LogConnectionRequestFailed e) c1;
                          (t, c3) = now lib c2;
                          errMsg = NewSystemMessage t ''Failed to handle connection request''
                      in (shell1, writeJSON lib errMsg c3))
                 | None \<Rightarrow> (shell1, c1))
        else (shell, logLine (LogUnhandledType (Type msg)) c))"

text \<open>
  The read loop. A read error ends the handler, and the deferred \<^verbatim>\<open>conn.Close()\<close> runs;
  when the list is used up the handler is waiting in \<^verbatim>\<open>ReadMessage\<close>.
\<close>

fun Connection_loop ::
  "('t, 'f) Lib \<Rightarrow> ('sh, 'f) ShellOps \<Rightarrow> ReadResult list \<Rightarrow> 'sh \<times> 'f Conn \<Rightarrow> 'sh \<times> 'f Conn" where
  "Connection_loop lib ops [] st = st"
| "Connection_loop lib ops (ReadError # rs) st = (fst st, Close (logLine LogReadError (snd st)))"
| "Connection_loop lib ops (ReadFrame p # rs) st =
     Connection_loop lib ops rs (Connection_frame lib ops p st)"

definition Connection_HandleWs ::
  "('t, 'f) Lib \<Rightarrow> ('sh, 'f) ShellOps \<Rightarrow> bool \<Rightarrow> ReadResult list \<Rightarrow> 'f Conn
     \<Rightarrow> 'sh option \<times> 'f Conn" where
  "Connection_HandleWs lib ops upgraded reads c =
     (if \<not> upgraded then (None, logLine LogUpgradeError c)
      else
        (let c1 = logLine LogNewConnection c;
             shell = NewShellConnection ops;
             (t, c2) = now lib c1;
             connMsg = NewConnectionStateMessage (jsonQuote lib) t ConnectionStateConnected
                         ''WebSocket connection established'';
             c3 = writeJSON lib connMsg c2;
             c4 = logLine LogSessionStarted c3;
             (shell', c5) = Connection_loop lib ops reads (shell, c4)
         in (Some shell', c5)))"

text \<open>The simulated shell fed a sequence of inputs, one \<^verbatim>\<open>HandleInput\<close> call each.\<close>

fun HandleInputs ::
  "('t, 'f) Lib \<Rightarrow> string list \<Rightarrow> ShellSession \<times> 'f Conn \<Rightarrow> ShellSession \<times> 'f Conn" where
  "HandleInputs lib [] st = st"
| "HandleInputs lib (i # is) st = HandleInputs lib is (HandleInput lib i st)"

text \<open>The frames a list of messages encodes to, a message that fails to encode left out.\<close>

definition framesOf :: "('t, 'f) Lib \<Rightarrow> 't Message list \<Rightarrow> 'f list" where
  "framesOf lib ms = List.map_filter (ToJSON lib) ms"

section \<open>Server configuration (package config)\<close>

text \<open>\<^verbatim>\<open>time.Duration\<close> and \<^verbatim>\<open>int\<close> are 64-bit integers; nothing here computes with them.\<close>

definition DefaultPort :: string where
  "DefaultPort = ''3000''"

definition DefaultFrontendDir :: string where
  "DefaultFrontendDir = ''frontend''"

definition Second :: int where
  "Second = 1000000000"

definition DefaultReadTimeout :: int where
  "DefaultReadTimeout = 30 * Second"

definition DefaultWriteTimeout :: int where
  "DefaultWriteTimeout = 30 * Second"

definition DefaultMaxConnections :: int where
  "DefaultMaxConnections = 100"

definition DefaultReadBufferSize :: int where
  "DefaultReadBufferSize = 1024"

definition DefaultWriteBufferSize :: int where
  "DefaultWriteBufferSize = 1024"

record Server =
  Port :: string
  FrontendDir :: string
  ReadTimeout :: int
  WriteTimeout :: int
  MaxConnections :: int
  ReadBufferSize :: int
  WriteBufferSize :: int

text \<open>
  \<^verbatim>\<open>strconv.Atoi\<close>: an optional sign, then one or more decimal digits, and a value that
  fits 64 bits; anything else is an error (\<open>None\<close>).
\<close>

definition isDigit :: "char \<Rightarrow> bool" where
  "isDigit b = ((48::nat) \<le> of_char b \<and> of_char b \<le> (57::nat))"

definition digitsValue :: "string \<Rightarrow> int" where
  "digitsValue ds = foldl (\<lambda>acc b. acc * 10 + (int (of_char b) - 48)) 0 ds"

definition Atoi :: "string \<Rightarrow> int option" where
  "Atoi s =
     (let signed = (s \<noteq> [] \<and> (hd s = CHR ''+'' \<or> hd s = CHR ''-''));
          neg = (s \<noteq> [] \<and> hd s = CHR ''-'');
          ds = (if signed then tl s else s)
      in if ds = [] \<or> \<not> list_all isDigit ds then None
         else
           (let v = (if neg then - digitsValue ds else digitsValue ds)
            in if v < - (2 ^ 63) \<or> 2 ^ 63 - 1 < v then None else Some v))"

text \<open>\<^verbatim>\<open>strconv.Itoa\<close>.\<close>

fun natDigits :: "nat \<Rightarrow> string" where
  "natDigits n =
     (if n < 10 then [''0123456789'' ! n]
      else natDigits (n div 10) @ [''0123456789'' ! (n mod 10)])"

definition Itoa :: "int \<Rightarrow> string" where
  "Itoa i = (if i < 0 then CHR ''-'' # natDigits (nat (- i)) else natDigits (nat i))"

text \<open>
  \<^verbatim>\<open>time.ParseDuration\<close> and \<^verbatim>\<open>Duration.String\<close> belong to Go's library and are
  parameters: \<open>parseDur\<close> gives the nanoseconds or \<open>None\<close> for an error, \<open>durString\<close> prints
  a duration. The helpers' log lines are left out.
\<close>

definition parseDuration :: "(string \<Rightarrow> int option) \<Rightarrow> string \<Rightarrow> int \<Rightarrow> int" where
  "parseDuration parseDur value defaultValue =
     (if value = [] then defaultValue
      else
        (case parseDur value of
           None \<Rightarrow> defaultValue
         | Some duration \<Rightarrow> if duration \<le> 0 then defaultValue else duration))"

definition parseInt :: "string \<Rightarrow> int \<Rightarrow> int" where
  "parseInt value defaultValue =
     (if value = [] then defaultValue
      else
        (case Atoi value of
           None \<Rightarrow> defaultValue
         | Some intValue \<Rightarrow> if intValue \<le> 0 then defaultValue else intValue))"

text \<open>
  \<^verbatim>\<open>config.NewServer\<close>: \<open>getenv\<close> is \<^verbatim>\<open>os.Getenv\<close>, which gives the empty string for a
  variable that is not set.
\<close>

text \<open>The repeated \<^verbatim>\<open>if v == "" { v = d }\<close> of \<^verbatim>\<open>NewServer\<close>.\<close>

definition orDefault :: "string \<Rightarrow> string \<Rightarrow> string" where
  "orDefault v d = (if v = [] then d else v)"

definition NewServer ::
  "(string \<Rightarrow> string) \<Rightarrow> (string \<Rightarrow> int option) \<Rightarrow> (int \<Rightarrow> string) \<Rightarrow> Server" where
  "NewServer getenv parseDur durString =
     (let port = orDefault (getenv ''WEB_SSH_PORT'') DefaultPort;
          frontendDir = orDefault (getenv ''WEB_SSH_FRONTEND_DIR'') DefaultFrontendDir;
          readTimeout = orDefault (getenv ''WEB_SSH_READ_TIMEOUT'') (durString DefaultReadTimeout);
          writeTimeout = orDefault (getenv ''WEB_SSH_WRITE_TIMEOUT'') (durString DefaultWriteTimeout);
          maxConnections = orDefault (getenv ''WEB_SSH_MAX_CONNECTIONS'') (Itoa DefaultMaxConnections);
          readBufferSize = orDefault (getenv ''WEB_SSH_READ_BUFFER_SIZE'') (Itoa DefaultReadBufferSize);
          writeBufferSize = orDefault (getenv ''WEB_SSH_WRITE_BUFFER_SIZE'') (Itoa DefaultWriteBufferSize)
      in \<lparr>Port = port,
          FrontendDir = frontendDir,
          ReadTimeout = parseDuration parseDur readTimeout DefaultReadTimeout,
          WriteTimeout = parseDuration parseDur writeTimeout DefaultWriteTimeout,
          MaxConnections = parseInt maxConnections DefaultMaxConnections,
          ReadBufferSize = parseInt readBufferSize DefaultReadBufferSize,
          WriteBufferSize = parseInt writeBufferSize DefaultWriteBufferSize\<rparr>)"

section \<open>Sample inputs\<close>

text \<open>
  Concrete frames, a concrete library and a concrete shell, on which the closed theorems
  below evaluate the handlers. \<open>sampleUnmarshal\<close> gives what \<^verbatim>\<open>json.Unmarshal\<close> gives on
  the eight frames listed here, which carry no timestamp: the decoded fields are set in
  the message, the others keep their zero values. \<open>frameBadData\<close> has a number where the
  string \<^verbatim>\<open>data\<close> is expected, so the type is stored and an error is returned;
  \<open>frameTruncated\<close> is not JSON, so nothing is stored. Any other input is reported as an
  error here; no theorem evaluates the sample decoder on one.
\<close>

definition frameBogus :: string where
  \<open>frameBogus = ''{"type":"bogus","data":"x"}''\<close>

definition frameInput :: string where
  \<open>frameInput = ''{"type":"terminal_input","data":"a"}''\<close>

definition frameResize :: string where
  \<open>frameResize =
     ''{"type":"terminal_resize","data":"{'' @ [CHR 0x5C] @ ''"cols'' @ [CHR 0x5C] @ ''":120,''
       @ [CHR 0x5C] @ ''"rows'' @ [CHR 0x5C] @ ''":40}"}''\<close>

definition frameConnect :: string where
  \<open>frameConnect =
     ''{"type":"connection_request","metadata":{"ssh_host":"example.org","ssh_user":"alice"}}''\<close>

definition frameNoMetadata :: string where
  \<open>frameNoMetadata = ''{"type":"connection_request"}''\<close>

definition frameNoHost :: string where
  \<open>frameNoHost = ''{"type":"connection_request","metadata":{"ssh_user":"alice"}}''\<close>

definition frameBadData :: string where
  \<open>frameBadData = ''{"type":"terminal_input","data":5}''\<close>

definition frameTruncated :: string where
  \<open>frameTruncated = ''{"type":"terminal_input","data":''\<close>

definition sampleUnmarshal :: "string \<Rightarrow> nat Message \<Rightarrow> nat Message \<times> Err option" where
  \<open>sampleUnmarshal p m =
     (if p = frameBogus then (m\<lparr>Type := ''bogus'', Data := ''x''\<rparr>, None)
      else if p = frameInput then (m\<lparr>Type := ''terminal_input'', Data := ''a''\<rparr>, None)
      else if p = frameResize
        then (m\<lparr>Type := ''terminal_resize'', Data := ''{"cols":120,"rows":40}''\<rparr>, None)
      else if p = frameConnect
        then (m\<lparr>Type := ''connection_request'',
                 Metadata := Some \<lparr>HasAnsi = False, ExitCode = None, Command = [],
                                   SSHHost = ''example.org'', SSHUser = ''alice'',
                                   SessionID = []\<rparr>\<rparr>, None)
      else if p = frameNoMetadata then (m\<lparr>Type := ''connection_request''\<rparr>, None)
      else if p = frameNoHost
        then (m\<lparr>Type := ''connection_request'',
                 Metadata := Some \<lparr>HasAnsi = False, ExitCode = None, Command = [],
                                   SSHHost = [], SSHUser = ''alice'', SessionID = []\<rparr>\<rparr>, None)
      else if p = frameBadData then (m\<lparr>Type := ''terminal_input''\<rparr>, Some ErrJSON)
      else (m, Some ErrJSON))\<close>

text \<open>
  The sample library: the clock counts its readings, a message is its own frame, strings
  are quoted plainly and no write fails.
\<close>

definition sampleLib :: "(nat, nat Message) Lib" where
  "sampleLib =
     \<lparr>timeNow = (\<lambda>n. n), timeZero = 0, jsonMarshal = Some, jsonQuote = quotePlain,
      jsonUnmarshal = sampleUnmarshal, writeFails = (\<lambda>n. False)\<rparr>"

text \<open>
  Modelled from the spec: \<^verbatim>\<open>ShellConnection\<close> is not among the sources. The sample shell
  has what section 3 of the specification gives a Session that the theorems below talk
  about: whether it is active, and the terminal geometry (columns, rows). Its \<open>Connect\<close>
  fails without a host and otherwise makes the shell active.
\<close>

record SampleShell =
  active :: bool
  cols :: nat
  rows :: nat

definition sampleOps :: "(SampleShell, nat Message) ShellOps" where
  "sampleOps =
     \<lparr>NewShellConnection = \<lparr>active = False, cols = 80, rows = 24\<rparr>,
      Connect = (\<lambda>md (sh, c).
        if SSHHost md = [] then (Some ErrConnect, sh, c) else (None, sh\<lparr>active := True\<rparr>, c))\<rparr>"

text \<open>
  A sample duration parser, which knows \<^verbatim>\<open>30s\<close>, \<^verbatim>\<open>5m\<close> and \<^verbatim>\<open>-1s\<close>, and a sample
  printer, which prints the default.
\<close>

definition sampleParseDuration :: "string \<Rightarrow> int option" where
  "sampleParseDuration s =
     (if s = ''30s'' then Some (30 * Second)
      else if s = ''5m'' then Some (300 * Second)
      else if s = ''-1s'' then Some (- Second)
      else None)"

definition sampleDurationString :: "int \<Rightarrow> string" where
  "sampleDurationString d = (if d = 30 * Second then ''30s'' else ''?'')"

text \<open>
  Modelled from the spec: the sources hold no command rule, no rule list and nothing that
  reads one. Section 3 of the specification gives a CommandRule a pattern (a literal or a
  regular expression), a category and the action block; here a rule matches a payload
  that contains a match of its pattern. The sample rule blocks the letter \<^verbatim>\<open>a\<close>. No
  handler takes a rule: these definitions only name the payload of a closed theorem.
\<close>

datatype RuleAction = Block

record CommandRule =
  pattern :: regexp
  category :: string
  action :: RuleAction

definition ruleMatches :: "CommandRule \<Rightarrow> string \<Rightarrow> bool" where
  "ruleMatches r payload = MatchString (pattern r) payload"

definition sampleRule :: CommandRule where
  "sampleRule = \<lparr>pattern = RByte (CHR ''a''), category = ''sample'', action = Block\<rparr>"

text \<open>A sample environment: three variables are set, one of them to a negative number.\<close>

definition sampleGetenv :: "string \<Rightarrow> string" where
  "sampleGetenv k =
     (if k = ''WEB_SSH_MAX_CONNECTIONS'' then ''-4''
      else if k = ''WEB_SSH_READ_TIMEOUT'' then ''5m''
      else if k = ''WEB_SSH_READ_BUFFER_SIZE'' then ''4096''
      else [])"

text \<open>The printable ASCII bytes, 0x20 to 0x7E.\<close>

definition printableASCII :: "char \<Rightarrow> bool" where
  "printableASCII b = ((32::nat) \<le> of_char b \<and> of_char b \<le> (126::nat))"

section \<open>Regular expressions: the matcher computes the language\<close>












text \<open>Two evaluations: a colour sequence is found, the clear-screen sequence is not.\<close>

lemma containsAnsiCodes_colour:
  "containsAnsiCodes (''a'' @ [CHR 0x1B] @ ''[1;31mred'')"
  by (simp add: containsAnsiCodes_def ansiRegex_def)

lemma containsAnsiCodes_clear:
  "\<not> containsAnsiCodes ([CHR 0x1B] @ ''[2J'' @ [CHR 0x1B] @ ''[H'')"
  by (simp add: containsAnsiCodes_def ansiRegex_def)

section \<open>Outbound messages\<close>



text \<open>The greeting of the handlers, and a state without a message, evaluated.\<close>

lemma NewConnectionStateMessage_greeting:
  \<open>Data (NewConnectionStateMessage quotePlain (0::nat) ConnectionStateConnected
           ''WebSocket connection established'')
     = ''{"state":"connected","message":"WebSocket connection established"}''\<close>
  by (simp add: NewConnectionStateMessage_def marshalConnectionStateMessage_def NewMessage_def
      quotePlain_def ConnectionStateConnected_def)

lemma NewConnectionStateMessage_no_message:
  \<open>Data (NewConnectionStateMessage quotePlain (0::nat) ConnectionStateError [])
     = ''{"state":"error"}''\<close>
  by (simp add: NewConnectionStateMessage_def marshalConnectionStateMessage_def NewMessage_def
      quotePlain_def ConnectionStateError_def)

section \<open>The simulated shell's input buffer\<close>

lemma processCommand_buffer: "currentInput (fst (processCommand lib (s, c))) = []"
  by (simp add: processCommand_def Let_def split: prod.splits)

lemma handleBackspace_buffer:
  "currentInput (fst (handleBackspace lib (s, c))) = butlast (currentInput s)"
  by (simp add: handleBackspace_def butlast_conv_take)

lemma HandleInput_buffer:
  "currentInput (fst (HandleInput lib input (s, c))) = []
   \<or> currentInput (fst (HandleInput lib input (s, c))) = butlast (currentInput s)
   \<or> currentInput (fst (HandleInput lib input (s, c))) = currentInput s
   \<or> (\<exists>b. input = [b] \<and> printableASCII b
          \<and> currentInput (fst (HandleInput lib input (s, c))) = currentInput s @ [b])"
proof -
  consider (enter) "input = [CHR 0x0D] \<or> input = [CHR 0x0A]"
    | (del) "\<not> (input = [CHR 0x0D] \<or> input = [CHR 0x0A])" "input = [CHR 0x7F]"
    | (char) "\<not> (input = [CHR 0x0D] \<or> input = [CHR 0x0A])" "input \<noteq> [CHR 0x7F]"
        "length input = 1 \<and> (32::nat) \<le> of_char (input ! 0) \<and> of_char (input ! 0) \<le> (126::nat)"
    | (other) "\<not> (input = [CHR 0x0D] \<or> input = [CHR 0x0A])" "input \<noteq> [CHR 0x7F]"
        "\<not> (length input = 1 \<and> (32::nat) \<le> of_char (input ! 0) \<and> of_char (input ! 0) \<le> (126::nat))"
    by blast
  then show ?thesis
  proof cases
    case enter
    then have "HandleInput lib input (s, c) = processCommand lib (s, c)"
      by (simp add: HandleInput_def)
    then show ?thesis by (simp add: processCommand_buffer)
  next
    case del
    then have "HandleInput lib input (s, c) = handleBackspace lib (s, c)"
      by (simp add: HandleInput_def)
    then show ?thesis by (simp add: handleBackspace_buffer)
  next
    case char
    then obtain b where b: "input = [b]" by (cases input) auto
    with char have "printableASCII b" by (simp add: printableASCII_def)
    moreover have "currentInput (fst (HandleInput lib input (s, c))) = currentInput s @ [b]"
      using char b by (simp add: HandleInput_def)
    ultimately show ?thesis using b by blast
  next
    case other
    then have "HandleInput lib input (s, c) = (s, c)"
      by (auto simp: HandleInput_def)
    then show ?thesis by simp
  qed
qed

lemma HandleInput_printable:
  assumes "list_all printableASCII (currentInput (fst st))"
  shows "list_all printableASCII (currentInput (fst (HandleInput lib input st)))"
proof -
  obtain s c where st: "st = (s, c)" by (cases st)
  have inv: "list_all printableASCII (currentInput s)" using assms st by simp
  then have "list_all printableASCII (butlast (currentInput s))"
    by (auto simp: list_all_iff dest: in_set_butlastD)
  with inv show ?thesis using HandleInput_buffer[of lib input s c] st
    by (auto simp: list_all_iff)
qed

lemma HandleInputs_printable:
  "list_all printableASCII (currentInput (fst st)) \<Longrightarrow>
   list_all printableASCII (currentInput (fst (HandleInputs lib inputs st)))"
proof (induction inputs arbitrary: st)
  case Nil
  then show ?case by simp
next
  case (Cons i rest)
  then show ?case by (simp add: HandleInput_printable)
qed

text \<open>
  Claim C9. Whatever sequence of inputs a fresh shell session is given, its buffer holds
  only printable ASCII bytes. One call of \<^verbatim>\<open>HandleInput\<close> empties the buffer (Enter),
  removes its last byte (backspace), leaves it as it is, or appends the input when the
  input is a single printable byte. A backspace on an empty buffer changes neither the
  session nor the connection: nothing is written.
\<close>

theorem C9_currentInput_printable:
  "list_all printableASCII (currentInput (fst (HandleInputs lib inputs (NewShellSession, c))))
   \<and> (currentInput (fst (HandleInput lib input (s, c))) = []
      \<or> currentInput (fst (HandleInput lib input (s, c))) = butlast (currentInput s)
      \<or> currentInput (fst (HandleInput lib input (s, c))) = currentInput s
      \<or> (\<exists>b. input = [b] \<and> printableASCII b
           \<and> currentInput (fst (HandleInput lib input (s, c))) = currentInput s @ [b]))
   \<and> HandleInput lib [CHR 0x7F] (s\<lparr>currentInput := []\<rparr>, c) = (s\<lparr>currentInput := []\<rparr>, c)"
proof -
  have "list_all printableASCII (currentInput (fst (NewShellSession, c)))"
    by (simp add: NewShellSession_def)
  then have "list_all printableASCII (currentInput (fst (HandleInputs lib inputs (NewShellSession, c))))"
    by (rule HandleInputs_printable)
  moreover have "HandleInput lib [CHR 0x7F] (s\<lparr>currentInput := []\<rparr>, c) = (s\<lparr>currentInput := []\<rparr>, c)"
    by (simp add: HandleInput_def handleBackspace_def)
  ultimately show ?thesis using HandleInput_buffer[of lib input s c] by blast
qed

text \<open>
  The same holds for the session of the simulated handler, whatever frames it reads: a
  frame reaches the buffer only through \<^verbatim>\<open>HandleInput\<close>.
\<close>

lemma HandlerDeps_frame_printable:
  assumes "list_all printableASCII (currentInput (fst st))"
  shows "list_all printableASCII (currentInput (fst (HandlerDeps_frame lib p st)))"
proof -
  obtain s c where st: "st = (s, c)" by (cases st)
  obtain msg err where pm: "ParseMessage lib p = (msg, err)" by (cases "ParseMessage lib p")
  have "fst (HandlerDeps_frame lib p (s, c)) = s
      \<or> HandlerDeps_frame lib p (s, c) = HandleInput lib (Data msg) (s, c)"
    using pm by (simp add: HandlerDeps_frame_def handleRequestPrompt_def Let_def split: prod.splits)
  then show ?thesis
  proof
    assume "fst (HandlerDeps_frame lib p (s, c)) = s"
    then show ?thesis using assms st by simp
  next
    assume "HandlerDeps_frame lib p (s, c) = HandleInput lib (Data msg) (s, c)"
    then show ?thesis using assms st HandleInput_printable[of "(s, c)" lib "Data msg"] by simp
  qed
qed

lemma HandlerDeps_loop_printable:
  "list_all printableASCII (currentInput (fst st)) \<Longrightarrow>
   list_all printableASCII (currentInput (fst (HandlerDeps_loop lib reads st)))"
proof (induction lib reads st rule: HandlerDeps_loop.induct)
  case (1 lib st)
  then show ?case by simp
next
  case (2 lib rs st)
  then show ?case by simp
next
  case (3 lib p rs st)
  then show ?case by (simp add: HandlerDeps_frame_printable)
qed

lemma HandlerDeps_HandleWs_session:
  "fst (HandlerDeps_HandleWs lib True reads c) =
     Some (fst (HandlerDeps_loop lib reads
       (NewShellSession,
        logLine LogSessionStarted
          (writeJSON lib
             (NewConnectionStateMessage (jsonQuote lib) (timeNow lib (clock c))
                ConnectionStateConnected ''WebSocket connection established'')
             (snd (now lib (logLine LogNewConnection c)))))))"
  by (simp add: HandlerDeps_HandleWs_def now_def logLine_def Let_def split: prod.splits)

lemma HandlerDeps_HandleWs_printable:
  assumes "fst (HandlerDeps_HandleWs lib upgraded reads c) = Some s"
  shows "list_all printableASCII (currentInput s)"
proof -
  have up: upgraded
    using assms by (cases upgraded) (simp_all add: HandlerDeps_HandleWs_def)
  with assms have "\<exists>c'. s = fst (HandlerDeps_loop lib reads (NewShellSession, c'))"
    using HandlerDeps_HandleWs_session[of lib reads c] by auto
  then obtain c' where s: "s = fst (HandlerDeps_loop lib reads (NewShellSession, c'))" by blast
  have "list_all printableASCII (currentInput (fst (NewShellSession, c')))"
    by (simp add: NewShellSession_def)
  then have "list_all printableASCII
      (currentInput (fst (HandlerDeps_loop lib reads (NewShellSession, c'))))"
    by (rule HandlerDeps_loop_printable)
  with s show ?thesis by simp
qed

text \<open>A run of the simulated shell: typing \<^verbatim>\<open>pwd\<close>, a backspace, \<^verbatim>\<open>d\<close> again and Enter.\<close>

lemma HandleInputs_pwd:
  "map Data (writes (snd (HandleInputs sampleLib
       [''p'', ''w'', ''d'', [CHR 0x7F], ''d'', [CHR 0x0D]] (NewShellSession, newConn)))) =
     [''p'', ''w'', ''d'', [CHR 0x08, CHR '' '', CHR 0x08], ''d'', [CHR 0x0D, CHR 0x0A],
      ''/home/user'' @ [CHR 0x0D, CHR 0x0A], ''user@webssh:~$ '']
   \<and> currentInput (fst (HandleInputs sampleLib
       [''p'', ''w'', ''d'', [CHR 0x7F], ''d'', [CHR 0x0D]] (NewShellSession, newConn))) = []"
  by (simp add: HandleInput_def handleBackspace_def processCommand_def executeCommand_def
      sendOutput_def showPrompt_def now_def writeJSON_def WriteMessage_def ToJSON_def
      sampleLib_def newConn_def NewShellSession_def NewTerminalOutput_def NewMessage_def
      TrimSpace_def asciiSpace_def HasPrefix_def Let_def)

section \<open>Configuration values are positive\<close>

lemma Atoi_empty: "Atoi [] = None"
  by (simp add: Atoi_def)

lemma parseInt_eq:
  "parseInt v d = (case Atoi v of Some n \<Rightarrow> if 0 < n then n else d | None \<Rightarrow> d)"
  by (cases "v = []") (auto simp: parseInt_def Atoi_empty split: option.splits)

lemma parseInt_pos: "0 < d \<Longrightarrow> 0 < parseInt v d"
  by (auto simp: parseInt_def split: option.splits)

lemma parseDuration_eq:
  "parseDuration pd v d =
     (case (if v = [] then None else pd v) of Some n \<Rightarrow> if 0 < n then n else d | None \<Rightarrow> d)"
  by (auto simp: parseDuration_def split: option.splits)

lemma parseDuration_pos: "0 < d \<Longrightarrow> 0 < parseDuration pd v d"
  by (auto simp: parseDuration_def split: option.splits)

lemma defaults_pos:
  "0 < DefaultReadTimeout" "0 < DefaultWriteTimeout" "0 < DefaultMaxConnections"
  "0 < DefaultReadBufferSize" "0 < DefaultWriteBufferSize"
  by (simp_all add: DefaultReadTimeout_def DefaultWriteTimeout_def Second_def
      DefaultMaxConnections_def DefaultReadBufferSize_def DefaultWriteBufferSize_def)

text \<open>
  Claim C10. With a positive default, \<^verbatim>\<open>parseInt\<close> and \<^verbatim>\<open>parseDuration\<close> return a positive
  number: the parsed value when the string parses to a positive number, the default
  otherwise. So every configuration \<^verbatim>\<open>NewServer\<close> builds, whatever the environment holds,
  has positive timeouts, connection limit and buffer sizes.
\<close>

theorem C10_config_positive:
  assumes "0 < d"
  shows "0 < parseInt v d
    \<and> parseInt v d = (case Atoi v of Some n \<Rightarrow> if 0 < n then n else d | None \<Rightarrow> d)
    \<and> 0 < parseDuration parseDur v d
    \<and> parseDuration parseDur v d =
        (case (if v = [] then None else parseDur v) of
           Some n \<Rightarrow> if 0 < n then n else d | None \<Rightarrow> d)
    \<and> 0 < ReadTimeout (NewServer getenv parseDur durString)
    \<and> 0 < WriteTimeout (NewServer getenv parseDur durString)
    \<and> 0 < MaxConnections (NewServer getenv parseDur durString)
    \<and> 0 < ReadBufferSize (NewServer getenv parseDur durString)
    \<and> 0 < WriteBufferSize (NewServer getenv parseDur durString)"
proof -
  have "0 < ReadTimeout (NewServer getenv parseDur durString)"
    by (simp add: NewServer_def Let_def parseDuration_pos defaults_pos)
  moreover have "0 < WriteTimeout (NewServer getenv parseDur durString)"
    by (simp add: NewServer_def Let_def parseDuration_pos defaults_pos)
  moreover have "0 < MaxConnections (NewServer getenv parseDur durString)"
    by (simp add: NewServer_def Let_def parseInt_pos defaults_pos)
  moreover have "0 < ReadBufferSize (NewServer getenv parseDur durString)"
    by (simp add: NewServer_def Let_def parseInt_pos defaults_pos)
  moreover have "0 < WriteBufferSize (NewServer getenv parseDur durString)"
    by (simp add: NewServer_def Let_def parseInt_pos defaults_pos)
  ultimately show ?thesis
    using assms parseInt_pos[of d v] parseDuration_pos[of d parseDur v]
      parseInt_eq[of v d] parseDuration_eq[of parseDur v d] by blast
qed

lemma parseInt_42: "parseInt ''42'' 5 = 42"
  by (simp add: parseInt_def Atoi_def isDigit_def digitsValue_def)
lemma parseInt_negative: "parseInt ''-4'' 5 = 5"
  by (simp add: parseInt_def Atoi_def isDigit_def digitsValue_def)
lemma parseInt_not_a_number: "parseInt ''12a'' 5 = 5"
  by (simp add: parseInt_def Atoi_def isDigit_def digitsValue_def)
lemma NewServer_sample: "NewServer sampleGetenv sampleParseDuration sampleDurationString =
    \<lparr>Port = ''3000'', FrontendDir = ''frontend'', ReadTimeout = 300 * Second,
     WriteTimeout = 30 * Second, MaxConnections = 100, ReadBufferSize = 4096,
     WriteBufferSize = 1024\<rparr>"
  by (simp add: NewServer_def sampleGetenv_def sampleParseDuration_def sampleDurationString_def
      orDefault_def parseDuration_def parseInt_def Atoi_def isDigit_def digitsValue_def Itoa_def
      DefaultPort_def DefaultFrontendDir_def DefaultReadTimeout_def DefaultWriteTimeout_def
      DefaultMaxConnections_def DefaultReadBufferSize_def DefaultWriteBufferSize_def Second_def)

text \<open>The theorem at the default 5 and the sample environment.\<close>

theorem C10_config_positive_witness:
  "(0::int) < 5
    \<and> parseInt ''42'' 5 = 42 \<and> parseInt ''-4'' 5 = 5
    \<and> 0 < parseDuration sampleParseDuration ''-1s'' 5
    \<and> 0 < MaxConnections (NewServer sampleGetenv sampleParseDuration sampleDurationString)"
proof -
  have h: "(0::int) < 5" by simp
  show ?thesis
    using h C10_config_positive[OF h, of "''-1s''" sampleParseDuration sampleGetenv sampleDurationString] parseInt_42 parseInt_negative
    by simp
qed

section \<open>What the read loops do with a frame\<close>

text \<open>The definitions that evaluate the sample frames, library and shell.\<close>

lemmas sample_frames = frameBogus_def frameInput_def frameResize_def frameConnect_def
  frameNoMetadata_def frameNoHost_def frameBadData_def frameTruncated_def

lemmas sample_eval = sampleLib_def sampleUnmarshal_def sampleOps_def sample_frames
  ParseMessage_def zeroMessage_def ToJSON_def newConn_def

text \<open>The write idiom appends the frame of the message, if it has one, and nothing else.\<close>

lemma writeJSON_Some:
  "ToJSON lib m = Some f \<Longrightarrow>
     writeJSON lib m c =
       \<lparr>writes = writes c @ [f], clock = clock c, logs = logs c, closed = closed c\<rparr>"
  by (cases c) (simp add: writeJSON_def WriteMessage_def)

lemma writeJSON_writes: "writes (writeJSON lib m c) = writes c @ framesOf lib [m]"
  by (simp add: writeJSON_def WriteMessage_def framesOf_def List.map_filter_simps split: option.splits)

lemma writeJSON_rest:
  "clock (writeJSON lib m c) = clock c" "logs (writeJSON lib m c) = logs c"
  "closed (writeJSON lib m c) = closed c"
  by (simp_all add: writeJSON_def WriteMessage_def split: option.splits)

text \<open>A frame that does not decode, and a frame of a type the switch has no case for.\<close>

lemma Connection_frame_parse_error:
  assumes "snd (ParseMessage lib p) \<noteq> None"
  shows "Connection_frame lib ops p (sh, c) =
     (sh, writeJSON lib (NewSystemMessage (timeNow lib (clock c)) ''Invalid message format'')
            \<lparr>writes = writes c, clock = Suc (clock c), logs = logs c @ [LogInvalidFormat],
             closed = closed c\<rparr>)"
proof -
  obtain msg err where pm: "ParseMessage lib p = (msg, err)" by (cases "ParseMessage lib p")
  with assms have "err \<noteq> None" by simp
  with pm show ?thesis
    by (cases c) (simp add: Connection_frame_def now_def logLine_def)
qed


lemma Connection_frame_unhandled:
  assumes "snd (ParseMessage lib p) = None"
    and "Type (fst (ParseMessage lib p)) \<noteq> MessageTypeConnectionRequest"
  shows "Connection_frame lib ops p (sh, c) =
     (sh, \<lparr>writes = writes c, clock = clock c,
           logs = logs c @ [LogUnhandledType (Type (fst (ParseMessage lib p)))],
           closed = closed c\<rparr>)"
proof -
  obtain msg err where pm: "ParseMessage lib p = (msg, err)" by (cases "ParseMessage lib p")
  with assms show ?thesis
    by (cases c) (simp add: Connection_frame_def logLine_def)
qed

lemma HandlerDeps_frame_unhandled:
  assumes "snd (ParseMessage lib p) = None"
    and "Type (fst (ParseMessage lib p)) \<noteq> MessageTypeTerminalInput"
    and "Type (fst (ParseMessage lib p)) \<noteq> MessageTypeRequestPrompt"
  shows "HandlerDeps_frame lib p (s, c) =
     (s, \<lparr>writes = writes c, clock = clock c,
          logs = logs c @ [LogUnhandledType (Type (fst (ParseMessage lib p)))],
          closed = closed c\<rparr>)"
proof -
  obtain msg err where pm: "ParseMessage lib p = (msg, err)" by (cases "ParseMessage lib p")
  with assms show ?thesis
    by (cases c) (simp add: HandlerDeps_frame_def logLine_def)
qed



section \<open>Decoding and unknown types\<close>

text \<open>
  Claim C1, as the code has it. \<^verbatim>\<open>ParseMessage\<close> returns the decoder's message and error
  together, and the type of a message is never compared with the declared types. When
  the decoder reports an error, \<^verbatim>\<open>Connection.HandleWs\<close> does not look at the message: it
  logs, answers with the system message \<^verbatim>\<open>Invalid message format\<close> and keeps the shell as
  it is. When the frame decodes, every type other than \<^verbatim>\<open>connection_request\<close>, declared or
  not, is logged as unhandled and nothing is written to the client. The simulated
  handler does the same with every type other than \<^verbatim>\<open>terminal_input\<close> and
  \<^verbatim>\<open>request_prompt\<close>.
\<close>

theorem C1_decode_error_or_any_type:
  "ParseMessage lib p = jsonUnmarshal lib p (zeroMessage lib)
   \<and> (snd (ParseMessage lib p) \<noteq> None \<longrightarrow>
      Connection_frame lib ops p (sh, c) =
        (sh, writeJSON lib (NewSystemMessage (timeNow lib (clock c)) ''Invalid message format'')
               \<lparr>writes = writes c, clock = Suc (clock c),
                logs = logs c @ [LogInvalidFormat], closed = closed c\<rparr>)
      \<and> Type (NewSystemMessage (timeNow lib (clock c)) ''Invalid message format'')
          = MessageTypeSystemMessage)
   \<and> (snd (ParseMessage lib p) = None
        \<and> Type (fst (ParseMessage lib p)) \<noteq> MessageTypeConnectionRequest \<longrightarrow>
      Connection_frame lib ops p (sh, c) =
        (sh, \<lparr>writes = writes c, clock = clock c,
              logs = logs c @ [LogUnhandledType (Type (fst (ParseMessage lib p)))],
              closed = closed c\<rparr>))
   \<and> (snd (ParseMessage lib p) = None
        \<and> Type (fst (ParseMessage lib p)) \<noteq> MessageTypeTerminalInput
        \<and> Type (fst (ParseMessage lib p)) \<noteq> MessageTypeRequestPrompt \<longrightarrow>
      HandlerDeps_frame lib p (s, c) =
        (s, \<lparr>writes = writes c, clock = clock c,
             logs = logs c @ [LogUnhandledType (Type (fst (ParseMessage lib p)))],
             closed = closed c\<rparr>))"
proof -
  have "ParseMessage lib p = jsonUnmarshal lib p (zeroMessage lib)"
    by (simp add: ParseMessage_def)
  then show ?thesis
    by (simp add: Connection_frame_parse_error Connection_frame_unhandled
        HandlerDeps_frame_unhandled NewSystemMessage_def NewMessage_def)
qed

text \<open>
  The theorem on a truncated frame (a decoding error) and on a resize frame (a type with
  no case in either switch).
\<close>

theorem C1_decode_error_or_any_type_witness:
  "snd (ParseMessage sampleLib frameTruncated) \<noteq> None
   \<and> Connection_frame sampleLib sampleOps frameTruncated (NewShellConnection sampleOps, newConn) =
       (NewShellConnection sampleOps,
        \<lparr>writes = [NewSystemMessage 0 ''Invalid message format''], clock = 1,
         logs = [LogInvalidFormat], closed = False\<rparr>)
   \<and> snd (ParseMessage sampleLib frameResize) = None
   \<and> Type (fst (ParseMessage sampleLib frameResize)) \<noteq> MessageTypeConnectionRequest
   \<and> Type (fst (ParseMessage sampleLib frameResize)) \<noteq> MessageTypeTerminalInput
   \<and> Type (fst (ParseMessage sampleLib frameResize)) \<noteq> MessageTypeRequestPrompt
   \<and> Connection_frame sampleLib sampleOps frameResize (NewShellConnection sampleOps, newConn) =
       (NewShellConnection sampleOps,
        \<lparr>writes = [], clock = 0, logs = [LogUnhandledType ''terminal_resize''], closed = False\<rparr>)
   \<and> HandlerDeps_frame sampleLib frameResize (NewShellSession, newConn) =
       (NewShellSession,
        \<lparr>writes = [], clock = 0, logs = [LogUnhandledType ''terminal_resize''], closed = False\<rparr>)"
proof -
  have e: "snd (ParseMessage sampleLib frameTruncated) \<noteq> None"
    by (simp add: sample_eval)
  have r: "snd (ParseMessage sampleLib frameResize) = None"
    "Type (fst (ParseMessage sampleLib frameResize)) = ''terminal_resize''"
    by (simp_all add: sample_eval)
  have t: "Type (fst (ParseMessage sampleLib frameResize)) \<noteq> MessageTypeConnectionRequest"
    "Type (fst (ParseMessage sampleLib frameResize)) \<noteq> MessageTypeTerminalInput"
    "Type (fst (ParseMessage sampleLib frameResize)) \<noteq> MessageTypeRequestPrompt"
    by (simp_all add: r MessageTypeConnectionRequest_def MessageTypeTerminalInput_def
        MessageTypeRequestPrompt_def)
  have w: "writeJSON sampleLib (NewSystemMessage (0::nat) ''Invalid message format'')
             \<lparr>writes = [], clock = Suc 0, logs = [LogInvalidFormat], closed = False\<rparr>
           = \<lparr>writes = [NewSystemMessage 0 ''Invalid message format''], clock = 1,
              logs = [LogInvalidFormat], closed = False\<rparr>"
    by (simp add: writeJSON_def WriteMessage_def sampleLib_def ToJSON_def)
  show ?thesis
    using e r t w
      C1_decode_error_or_any_type[where lib = sampleLib and ops = sampleOps
        and p = frameTruncated and sh = "NewShellConnection sampleOps" and c = newConn
        and s = NewShellSession]
      C1_decode_error_or_any_type[where lib = sampleLib and ops = sampleOps
        and p = frameResize and sh = "NewShellConnection sampleOps" and c = newConn
        and s = NewShellSession]
    by (simp add: newConn_def sampleLib_def)
qed

text \<open>
  Against claim C1 as stated: the frame \<^verbatim>\<open>{"type":"bogus","data":"x"}\<close> decodes without an
  error into a message whose type is none of the declared ones, and the handler writes
  nothing to the client, it only logs. And a frame whose \<^verbatim>\<open>data\<close> is a number makes
  \<^verbatim>\<open>ParseMessage\<close> return an error together with a message whose type is already filled in.
\<close>

theorem C1_counterexample:
  "ParseMessage sampleLib frameBogus =
     (\<lparr>Type = ''bogus'', Data = ''x'', Timestamp = 0, Metadata = None\<rparr>, None)
   \<and> ''bogus'' \<notin> set declaredMessageTypes
   \<and> Connection_frame sampleLib sampleOps frameBogus (NewShellConnection sampleOps, newConn) =
       (NewShellConnection sampleOps,
        \<lparr>writes = [], clock = 0, logs = [LogUnhandledType ''bogus''], closed = False\<rparr>)
   \<and> ParseMessage sampleLib frameBadData =
       (\<lparr>Type = ''terminal_input'', Data = [], Timestamp = 0, Metadata = None\<rparr>, Some ErrJSON)"
proof -
  have 1: "ParseMessage sampleLib frameBogus =
     (\<lparr>Type = ''bogus'', Data = ''x'', Timestamp = 0, Metadata = None\<rparr>, None)"
    by (simp add: sample_eval)
  have 2: "''bogus'' \<notin> set declaredMessageTypes"
    by (simp add: declaredMessageTypes_def MessageTypeTerminalInput_def
        MessageTypeTerminalOutput_def MessageTypeTerminalError_def MessageTypeSystemMessage_def
        MessageTypeConnectionState_def MessageTypeRequestPrompt_def)
  have 3: "Connection_frame sampleLib sampleOps frameBogus (NewShellConnection sampleOps, newConn) =
       (NewShellConnection sampleOps,
        \<lparr>writes = [], clock = 0, logs = [LogUnhandledType ''bogus''], closed = False\<rparr>)"
    by (simp add: Connection_frame_def 1 logLine_def MessageTypeConnectionRequest_def newConn_def)
  have 4: "ParseMessage sampleLib frameBadData =
       (\<lparr>Type = ''terminal_input'', Data = [], Timestamp = 0, Metadata = None\<rparr>, Some ErrJSON)"
    by (simp add: sample_eval)
  from 1 2 3 4 show ?thesis by blast
qed

section \<open>Resize messages\<close>

text \<open>
  Claim C6, as the code has it. Neither handler has a case for a resize message, and no
  terminal geometry is kept: a frame that decodes with the type \<^verbatim>\<open>resize\<close> or
  \<^verbatim>\<open>terminal_resize\<close> is logged as unhandled, whatever state the shell is in. The shell is
  not touched, nothing is written to the client, the read loop goes on with the next
  frame from a state that differs only by the log line, so nothing is queued.
\<close>

theorem C6_resize_is_unhandled:
  assumes "snd (ParseMessage lib p) = None"
    and "Type (fst (ParseMessage lib p)) \<in> {''resize'', ''terminal_resize''}"
  shows "Connection_frame lib ops p (sh, c) =
       (sh, \<lparr>writes = writes c, clock = clock c,
             logs = logs c @ [LogUnhandledType (Type (fst (ParseMessage lib p)))],
             closed = closed c\<rparr>)
     \<and> Connection_loop lib ops (ReadFrame p # rs) (sh, c) =
         Connection_loop lib ops rs
           (sh, \<lparr>writes = writes c, clock = clock c,
                 logs = logs c @ [LogUnhandledType (Type (fst (ParseMessage lib p)))],
                 closed = closed c\<rparr>)
     \<and> HandlerDeps_frame lib p (s, c) =
         (s, \<lparr>writes = writes c, clock = clock c,
              logs = logs c @ [LogUnhandledType (Type (fst (ParseMessage lib p)))],
              closed = closed c\<rparr>)"
proof -
  have "Type (fst (ParseMessage lib p)) \<noteq> MessageTypeConnectionRequest"
    "Type (fst (ParseMessage lib p)) \<noteq> MessageTypeTerminalInput"
    "Type (fst (ParseMessage lib p)) \<noteq> MessageTypeRequestPrompt"
    using assms(2) by (auto simp: MessageTypeConnectionRequest_def MessageTypeTerminalInput_def
        MessageTypeRequestPrompt_def)
  then show ?thesis
    using assms(1) by (simp add: Connection_frame_unhandled HandlerDeps_frame_unhandled)
qed

text \<open>
  The theorem on the resize frame of the front end, with a sample shell that is active.
\<close>

theorem C6_resize_is_unhandled_witness:
  "snd (ParseMessage sampleLib frameResize) = None
   \<and> Type (fst (ParseMessage sampleLib frameResize)) \<in> {''resize'', ''terminal_resize''}
   \<and> Connection_loop sampleLib sampleOps [ReadFrame frameResize]
        (\<lparr>active = True, cols = 80, rows = 24\<rparr>, newConn) =
       (\<lparr>active = True, cols = 80, rows = 24\<rparr>,
        \<lparr>writes = [], clock = 0, logs = [LogUnhandledType ''terminal_resize''], closed = False\<rparr>)"
proof -
  have h1: "snd (ParseMessage sampleLib frameResize) = None"
    by (simp add: sample_eval)
  have ty: "Type (fst (ParseMessage sampleLib frameResize)) = ''terminal_resize''"
    by (simp add: sample_eval)
  have h2: "Type (fst (ParseMessage sampleLib frameResize)) \<in> {''resize'', ''terminal_resize''}"
    by (simp add: ty)
  show ?thesis
    using h1 h2 ty
      C6_resize_is_unhandled[OF h1 h2, where ops = sampleOps and rs = "[]"
        and sh = "\<lparr>active = True, cols = 80, rows = 24\<rparr>" and c = newConn]
    by (simp add: newConn_def)
qed

text \<open>
  Against claim C6 as stated: after a connection request has made the sample shell
  active, a resize frame asking for 120 columns and 40 rows leaves it at 80 by 24.
\<close>

theorem C6_counterexample:
  \<open>fst (Connection_frame sampleLib sampleOps frameConnect (NewShellConnection sampleOps, newConn))
     = \<lparr>active = True, cols = 80, rows = 24\<rparr>
   \<and> ParseMessage sampleLib frameResize =
       (\<lparr>Type = ''terminal_resize'', Data = ''{"cols":120,"rows":40}'', Timestamp = 0,
         Metadata = None\<rparr>, None)
   \<and> fst (Connection_loop sampleLib sampleOps [ReadFrame frameConnect, ReadFrame frameResize]
            (NewShellConnection sampleOps, newConn))
     = \<lparr>active = True, cols = 80, rows = 24\<rparr>\<close>
proof -
  have c: "Connection_frame sampleLib sampleOps frameConnect (NewShellConnection sampleOps, newConn)
     = (\<lparr>active = True, cols = 80, rows = 24\<rparr>,
        \<lparr>writes = [NewConnectionStateMessage quotePlain 0 ConnectionStateConnected ''Shell session connected''],
         clock = 1, logs = [LogShellConnected ''alice''], closed = False\<rparr>)"
    by (simp add: Connection_frame_def handleConnectionRequest_def sample_eval
        MessageTypeConnectionRequest_def logLine_def now_def WriteMessage_def)
  have p: \<open>ParseMessage sampleLib frameResize =
       (\<lparr>Type = ''terminal_resize'', Data = ''{"cols":120,"rows":40}'', Timestamp = 0,
         Metadata = None\<rparr>, None)\<close>
    by (simp add: sample_eval)
  have r: "fst (Connection_frame sampleLib sampleOps frameResize (\<lparr>active = True, cols = 80, rows = 24\<rparr>, c'))
     = \<lparr>active = True, cols = 80, rows = 24\<rparr>" for c'
    by (simp add: Connection_frame_def p MessageTypeConnectionRequest_def)
  show ?thesis using c p r by simp
qed

section \<open>Failure paths of the connection handler\<close>

text \<open>A connection request that fails: no metadata, or an error from \<open>Connect\<close>.\<close>

lemma Connection_frame_no_metadata:
  assumes "snd (ParseMessage lib p) = None"
    and "Type (fst (ParseMessage lib p)) = MessageTypeConnectionRequest"
    and "Metadata (fst (ParseMessage lib p)) = None"
  shows "Connection_frame lib ops p (sh, c) =
     (sh, writeJSON lib
            (NewSystemMessage (timeNow lib (clock c)) ''Failed to handle connection request'')
            \<lparr>writes = writes c, clock = Suc (clock c),
             logs = logs c @ [LogMissingMetadata, LogConnectionRequestFailed ErrInvalidMessageFormat],
             closed = closed c\<rparr>)"
proof -
  obtain msg err where pm: "ParseMessage lib p = (msg, err)" by (cases "ParseMessage lib p")
  with assms show ?thesis
    by (cases c) (simp add: Connection_frame_def handleConnectionRequest_def now_def logLine_def)
qed

lemma Connection_frame_connect_error:
  assumes "snd (ParseMessage lib p) = None"
    and "Type (fst (ParseMessage lib p)) = MessageTypeConnectionRequest"
    and "Metadata (fst (ParseMessage lib p)) = Some md"
    and "Connect ops md (sh, c) = (Some e, shx, cx)"
  shows "Connection_frame lib ops p (sh, c) =
     (shx, writeJSON lib
            (NewSystemMessage (timeNow lib (clock cx)) ''Failed to handle connection request'')
            \<lparr>writes = writes cx, clock = Suc (clock cx),
             logs = logs cx @ [LogConnectionRequestFailed e], closed = closed cx\<rparr>)"
proof -
  obtain msg err where pm: "ParseMessage lib p = (msg, err)" by (cases "ParseMessage lib p")
  with assms show ?thesis
    by (cases cx) (simp add: Connection_frame_def handleConnectionRequest_def now_def logLine_def)
qed

text \<open>
  Claim C5, as the code has it. When the upgrade fails the handler logs and returns. When
  a read fails the handler logs, writes nothing and returns, and the deferred
  \<^verbatim>\<open>conn.Close()\<close> closes the connection: the client gets no message. The failures that
  keep the connection open are each answered with exactly one system message, written
  after the failure: a malformed frame, a connection request without metadata, and a
  connection request whose \<^verbatim>\<open>Connect\<close> fails. The system messages are taken to encode.
\<close>

theorem C5_failure_paths:
  "Connection_HandleWs lib ops False reads c =
       (None, \<lparr>writes = writes c, clock = clock c, logs = logs c @ [LogUpgradeError],
               closed = closed c\<rparr>)
   \<and> Connection_loop lib ops (ReadError # rs) (sh, c) =
       (sh, \<lparr>writes = writes c, clock = clock c, logs = logs c @ [LogReadError],
             closed = True\<rparr>)
   \<and> (snd (ParseMessage lib p) \<noteq> None
        \<and> ToJSON lib (NewSystemMessage (timeNow lib (clock c)) ''Invalid message format'') = Some f
      \<longrightarrow> Connection_frame lib ops p (sh, c) =
            (sh, \<lparr>writes = writes c @ [f], clock = Suc (clock c),
                  logs = logs c @ [LogInvalidFormat], closed = closed c\<rparr>))
   \<and> (snd (ParseMessage lib p) = None
        \<and> Type (fst (ParseMessage lib p)) = MessageTypeConnectionRequest
        \<and> Metadata (fst (ParseMessage lib p)) = None
        \<and> ToJSON lib (NewSystemMessage (timeNow lib (clock c))
                        ''Failed to handle connection request'') = Some g
      \<longrightarrow> Connection_frame lib ops p (sh, c) =
            (sh, \<lparr>writes = writes c @ [g], clock = Suc (clock c),
                  logs = logs c @ [LogMissingMetadata,
                                   LogConnectionRequestFailed ErrInvalidMessageFormat],
                  closed = closed c\<rparr>))
   \<and> (snd (ParseMessage lib p) = None
        \<and> Type (fst (ParseMessage lib p)) = MessageTypeConnectionRequest
        \<and> Metadata (fst (ParseMessage lib p)) = Some md
        \<and> Connect ops md (sh, c) = (Some e, shx, cx)
        \<and> ToJSON lib (NewSystemMessage (timeNow lib (clock cx))
                        ''Failed to handle connection request'') = Some h
      \<longrightarrow> Connection_frame lib ops p (sh, c) =
            (shx, \<lparr>writes = writes cx @ [h], clock = Suc (clock cx),
                   logs = logs cx @ [LogConnectionRequestFailed e], closed = closed cx\<rparr>))"
proof -
  have up: "Connection_HandleWs lib ops False reads c =
       (None, \<lparr>writes = writes c, clock = clock c, logs = logs c @ [LogUpgradeError],
               closed = closed c\<rparr>)"
    by (cases c) (simp add: Connection_HandleWs_def logLine_def)
  have rd: "Connection_loop lib ops (ReadError # rs) (sh, c) =
       (sh, \<lparr>writes = writes c, clock = clock c, logs = logs c @ [LogReadError],
             closed = True\<rparr>)"
    by (cases c) (simp add: logLine_def Close_def)
  show ?thesis
    using up rd
    by (simp add: Connection_frame_parse_error Connection_frame_no_metadata
        Connection_frame_connect_error writeJSON_Some)
qed

text \<open>
  The theorem on the sample library: a truncated frame, a connection request without
  metadata, and one without a host, which the sample \<open>Connect\<close> refuses.
\<close>

theorem C5_failure_paths_witness:
  "snd (ParseMessage sampleLib frameTruncated) \<noteq> None
   \<and> Connection_frame sampleLib sampleOps frameTruncated (NewShellConnection sampleOps, newConn) =
       (NewShellConnection sampleOps,
        \<lparr>writes = [NewSystemMessage 0 ''Invalid message format''], clock = 1,
         logs = [LogInvalidFormat], closed = False\<rparr>)
   \<and> snd (ParseMessage sampleLib frameNoMetadata) = None
   \<and> Type (fst (ParseMessage sampleLib frameNoMetadata)) = MessageTypeConnectionRequest
   \<and> Metadata (fst (ParseMessage sampleLib frameNoMetadata)) = None
   \<and> Connection_frame sampleLib sampleOps frameNoMetadata (NewShellConnection sampleOps, newConn) =
       (NewShellConnection sampleOps,
        \<lparr>writes = [NewSystemMessage 0 ''Failed to handle connection request''], clock = 1,
         logs = [LogMissingMetadata, LogConnectionRequestFailed ErrInvalidMessageFormat],
         closed = False\<rparr>)
   \<and> snd (ParseMessage sampleLib frameNoHost) = None
   \<and> Type (fst (ParseMessage sampleLib frameNoHost)) = MessageTypeConnectionRequest
   \<and> Metadata (fst (ParseMessage sampleLib frameNoHost)) =
        Some \<lparr>HasAnsi = False, ExitCode = None, Command = [], SSHHost = [],
              SSHUser = ''alice'', SessionID = []\<rparr>
   \<and> Connect sampleOps
        \<lparr>HasAnsi = False, ExitCode = None, Command = [], SSHHost = [],
         SSHUser = ''alice'', SessionID = []\<rparr> (NewShellConnection sampleOps, newConn)
       = (Some ErrConnect, NewShellConnection sampleOps, newConn)
   \<and> Connection_frame sampleLib sampleOps frameNoHost (NewShellConnection sampleOps, newConn) =
       (NewShellConnection sampleOps,
        \<lparr>writes = [NewSystemMessage 0 ''Failed to handle connection request''], clock = 1,
         logs = [LogConnectionRequestFailed ErrConnect], closed = False\<rparr>)"
proof -
  have a: "snd (ParseMessage sampleLib frameTruncated) \<noteq> None"
    by (simp add: sample_eval)
  have b: "snd (ParseMessage sampleLib frameNoMetadata) = None"
    "Type (fst (ParseMessage sampleLib frameNoMetadata)) = MessageTypeConnectionRequest"
    "Metadata (fst (ParseMessage sampleLib frameNoMetadata)) = None"
    by (simp_all add: sample_eval MessageTypeConnectionRequest_def)
  have d: "snd (ParseMessage sampleLib frameNoHost) = None"
    "Type (fst (ParseMessage sampleLib frameNoHost)) = MessageTypeConnectionRequest"
    "Metadata (fst (ParseMessage sampleLib frameNoHost)) =
        Some \<lparr>HasAnsi = False, ExitCode = None, Command = [], SSHHost = [],
              SSHUser = ''alice'', SessionID = []\<rparr>"
    by (simp_all add: sample_eval MessageTypeConnectionRequest_def)
  have k: "Connect sampleOps
        \<lparr>HasAnsi = False, ExitCode = None, Command = [], SSHHost = [],
         SSHUser = ''alice'', SessionID = []\<rparr> (NewShellConnection sampleOps, newConn)
       = (Some ErrConnect, NewShellConnection sampleOps, newConn)"
    by (simp add: sampleOps_def)
  have j: "ToJSON sampleLib (NewSystemMessage (timeNow sampleLib (clock (newConn :: nat Message Conn))) msgtext)
       = Some (NewSystemMessage 0 msgtext)" for msgtext
    by (simp add: sample_eval)
  show ?thesis
    using a b d k j
      C5_failure_paths[where lib = sampleLib and ops = sampleOps and p = frameTruncated
        and sh = "NewShellConnection sampleOps" and c = newConn
        and f = "NewSystemMessage 0 ''Invalid message format''"]
      C5_failure_paths[where lib = sampleLib and ops = sampleOps and p = frameNoMetadata
        and sh = "NewShellConnection sampleOps" and c = newConn
        and g = "NewSystemMessage 0 ''Failed to handle connection request''"]
      C5_failure_paths[where lib = sampleLib and ops = sampleOps and p = frameNoHost
        and sh = "NewShellConnection sampleOps" and c = newConn
        and md = "\<lparr>HasAnsi = False, ExitCode = None, Command = [], SSHHost = [],
              SSHUser = ''alice'', SessionID = []\<rparr>"
        and e = ErrConnect and shx = "NewShellConnection sampleOps" and cx = newConn
        and h = "NewSystemMessage 0 ''Failed to handle connection request''"]
    by (simp add: newConn_def)
qed

text \<open>
  Against claim C5 as stated: a read error closes the connection and no message is
  written for it. In a whole run, the only frame the client ever gets is the greeting
  sent before the first read.
\<close>

theorem C5_counterexample:
  "Connection_loop sampleLib sampleOps [ReadError] (NewShellConnection sampleOps, newConn) =
     (NewShellConnection sampleOps,
      \<lparr>writes = [], clock = 0, logs = [LogReadError], closed = True\<rparr>)
   \<and> Connection_HandleWs sampleLib sampleOps True [ReadFrame frameInput, ReadError] newConn =
     (Some (NewShellConnection sampleOps),
      \<lparr>writes = [NewConnectionStateMessage quotePlain 0 ConnectionStateConnected
                   ''WebSocket connection established''],
       clock = 1,
       logs = [LogNewConnection, LogSessionStarted, LogUnhandledType ''terminal_input'',
               LogReadError],
       closed = True\<rparr>)"
proof -
  have 1: "Connection_loop sampleLib sampleOps [ReadError] (NewShellConnection sampleOps, newConn) =
     (NewShellConnection sampleOps,
      \<lparr>writes = [], clock = 0, logs = [LogReadError], closed = True\<rparr>)"
    by (simp add: newConn_def logLine_def Close_def)
  have 2: "Connection_HandleWs sampleLib sampleOps True [ReadFrame frameInput, ReadError] newConn =
     (Some (NewShellConnection sampleOps),
      \<lparr>writes = [NewConnectionStateMessage quotePlain 0 ConnectionStateConnected
                   ''WebSocket connection established''],
       clock = 1,
       logs = [LogNewConnection, LogSessionStarted, LogUnhandledType ''terminal_input'',
               LogReadError],
       closed = True\<rparr>)"
    by (simp add: Connection_HandleWs_def Connection_frame_def sample_eval logLine_def now_def
        writeJSON_def WriteMessage_def Close_def MessageTypeConnectionRequest_def)
  from 1 2 show ?thesis by blast
qed

section \<open>Terminal input\<close>

text \<open>Everything the simulated shell writes is a terminal-output message.\<close>

lemma framesOf_append: "framesOf lib (a @ b) = framesOf lib a @ framesOf lib b"
  by (simp add: framesOf_def List.map_filter_def)

lemma framesOf_Nil: "framesOf lib [] = []"
  by (simp add: framesOf_def List.map_filter_def)

lemma Type_NewTerminalOutput: "Type (NewTerminalOutput t d cmd e) = MessageTypeTerminalOutput"
  by (simp add: NewTerminalOutput_def NewMessage_def)

lemma sendOutput_writes:
  "writes (sendOutput lib d c) =
     writes c @ framesOf lib [NewTerminalOutput (timeNow lib (clock c)) d [] None]"
  by (simp add: sendOutput_def now_def writeJSON_writes)

lemma showPrompt_writes:
  "writes (showPrompt lib s c) =
     writes c @ framesOf lib [NewTerminalOutput (timeNow lib (clock c)) (prompt s) [] None]"
  by (simp add: showPrompt_def now_def writeJSON_writes)

lemma if_let_shape:
  "(if a then c else (let output = out in if output \<noteq> [] then W output else c)) = c
   \<or> (\<exists>out'. (if a then c else (let output = out in if output \<noteq> [] then W output else c)) = W out')"
  by (cases a; cases "out = []") auto

lemma executeCommand_shape:
  "executeCommand lib cmd c = c
   \<or> (\<exists>out. executeCommand lib cmd c =
         (let (t, c1) = now lib c; response = NewTerminalOutput t out cmd None
          in writeJSON lib response c1))"
  unfolding executeCommand_def by (rule if_let_shape)

lemma executeCommand_writes:
  "\<exists>ms. writes (executeCommand lib cmd c) = writes c @ framesOf lib ms
      \<and> list_all (\<lambda>m. Type m = MessageTypeTerminalOutput) ms"
  using executeCommand_shape[of lib cmd c]
proof
  assume "executeCommand lib cmd c = c"
  then have "writes (executeCommand lib cmd c) = writes c @ framesOf lib []
      \<and> list_all (\<lambda>m. Type m = MessageTypeTerminalOutput) []" by (simp add: framesOf_Nil)
  then show ?thesis by blast
next
  assume "\<exists>out. executeCommand lib cmd c =
         (let (t, c1) = now lib c; response = NewTerminalOutput t out cmd None
          in writeJSON lib response c1)"
  then obtain out where "executeCommand lib cmd c =
         (let (t, c1) = now lib c; response = NewTerminalOutput t out cmd None
          in writeJSON lib response c1)" by blast
  then have "writes (executeCommand lib cmd c) =
            writes c @ framesOf lib [NewTerminalOutput (timeNow lib (clock c)) out cmd None]
      \<and> list_all (\<lambda>m. Type m = MessageTypeTerminalOutput)
           [NewTerminalOutput (timeNow lib (clock c)) out cmd None]"
    by (simp add: now_def writeJSON_writes Type_NewTerminalOutput)
  then show ?thesis by blast
qed

lemma processCommand_writes:
  "\<exists>ms. writes (snd (processCommand lib (s, c))) = writes c @ framesOf lib ms
      \<and> list_all (\<lambda>m. Type m = MessageTypeTerminalOutput) ms"
proof -
  define c2 where "c2 = writeJSON lib (NewTerminalOutput (timeNow lib (clock c)) [CHR 0x0D, CHR 0x0A] [] None)
                         (c\<lparr>clock := Suc (clock c)\<rparr>)"
  define c3 where "c3 = executeCommand lib (TrimSpace (currentInput s)) c2"
  have pc: "snd (processCommand lib (s, c)) = showPrompt lib (s\<lparr>currentInput := []\<rparr>) c3"
    by (simp add: processCommand_def Let_def now_def c2_def c3_def)
  have w2: "writes c2 = writes c @ framesOf lib [NewTerminalOutput (timeNow lib (clock c)) [CHR 0x0D, CHR 0x0A] [] None]"
    by (simp add: c2_def writeJSON_writes)
  obtain ms where w3: "writes c3 = writes c2 @ framesOf lib ms"
    and ms: "list_all (\<lambda>m. Type m = MessageTypeTerminalOutput) ms"
    using executeCommand_writes[of lib "TrimSpace (currentInput s)" c2] c3_def by blast
  let ?all = "[NewTerminalOutput (timeNow lib (clock c)) [CHR 0x0D, CHR 0x0A] [] None] @ ms
      @ [NewTerminalOutput (timeNow lib (clock c3)) (prompt (s\<lparr>currentInput := []\<rparr>)) [] None]"
  have "writes (snd (processCommand lib (s, c))) = writes c @ framesOf lib ?all"
    by (simp only: pc showPrompt_writes w3 w2 framesOf_append append_assoc)
  moreover have "list_all (\<lambda>m. Type m = MessageTypeTerminalOutput) ?all"
    using ms by (simp add: Type_NewTerminalOutput)
  ultimately show ?thesis by blast
qed

lemma handleBackspace_writes:
  "\<exists>ms. writes (snd (handleBackspace lib (s, c))) = writes c @ framesOf lib ms
      \<and> list_all (\<lambda>m. Type m = MessageTypeTerminalOutput) ms"
proof (cases "length (currentInput s) > 0")
  case True
  then have "writes (snd (handleBackspace lib (s, c))) =
      writes c @ framesOf lib [NewTerminalOutput (timeNow lib (clock c)) [CHR 0x08, CHR '' '', CHR 0x08] [] None]
    \<and> list_all (\<lambda>m. Type m = MessageTypeTerminalOutput)
        [NewTerminalOutput (timeNow lib (clock c)) [CHR 0x08, CHR '' '', CHR 0x08] [] None]"
    by (simp add: handleBackspace_def sendOutput_writes Type_NewTerminalOutput)
  then show ?thesis by blast
next
  case False
  then have "writes (snd (handleBackspace lib (s, c))) = writes c @ framesOf lib []
    \<and> list_all (\<lambda>m. Type m = MessageTypeTerminalOutput) []"
    by (simp add: handleBackspace_def framesOf_Nil)
  then show ?thesis by blast
qed

lemma HandleInput_writes:
  "\<exists>ms. writes (snd (HandleInput lib input (s, c))) = writes c @ framesOf lib ms
      \<and> list_all (\<lambda>m. Type m = MessageTypeTerminalOutput) ms"
proof -
  consider (enter) "input = [CHR 0x0D] \<or> input = [CHR 0x0A]"
    | (del) "\<not> (input = [CHR 0x0D] \<or> input = [CHR 0x0A])" "input = [CHR 0x7F]"
    | (char) "\<not> (input = [CHR 0x0D] \<or> input = [CHR 0x0A])" "input \<noteq> [CHR 0x7F]"
        "length input = 1 \<and> (32::nat) \<le> of_char (input ! 0) \<and> of_char (input ! 0) \<le> (126::nat)"
    | (other) "\<not> (input = [CHR 0x0D] \<or> input = [CHR 0x0A])" "input \<noteq> [CHR 0x7F]"
        "\<not> (length input = 1 \<and> (32::nat) \<le> of_char (input ! 0) \<and> of_char (input ! 0) \<le> (126::nat))"
    by blast
  then show ?thesis
  proof cases
    case enter
    then have "HandleInput lib input (s, c) = processCommand lib (s, c)"
      by (simp add: HandleInput_def)
    then show ?thesis using processCommand_writes[of lib s c] by simp
  next
    case del
    then have "HandleInput lib input (s, c) = handleBackspace lib (s, c)"
      by (simp add: HandleInput_def)
    then show ?thesis using handleBackspace_writes[of lib s c] by simp
  next
    case char
    then have "writes (snd (HandleInput lib input (s, c))) =
        writes c @ framesOf lib [NewTerminalOutput (timeNow lib (clock c)) input [] None]
      \<and> list_all (\<lambda>m. Type m = MessageTypeTerminalOutput)
          [NewTerminalOutput (timeNow lib (clock c)) input [] None]"
      by (simp add: HandleInput_def sendOutput_writes Type_NewTerminalOutput)
    then show ?thesis by blast
  next
    case other
    then have "HandleInput lib input (s, c) = (s, c)"
      by (auto simp: HandleInput_def)
    then have "writes (snd (HandleInput lib input (s, c))) = writes c @ framesOf lib []
      \<and> list_all (\<lambda>m. Type m = MessageTypeTerminalOutput) []"
      by (simp add: framesOf_Nil)
    then show ?thesis by blast
  qed
qed

text \<open>
  Claim C3, as the code has it. There are no command rules and no filter. A frame that
  decodes with the type \<^verbatim>\<open>terminal_input\<close> is, in \<^verbatim>\<open>Connection.HandleWs\<close>, logged as unhandled:
  the shell is not touched and nothing is written. In the simulated handler its payload
  goes to \<^verbatim>\<open>HandleInput\<close> as it is, and everything written in answer is the frame of a
  \<^verbatim>\<open>terminal_output\<close> message, never of a \<^verbatim>\<open>terminal_error\<close>.
\<close>

theorem C3_terminal_input_not_filtered:
  assumes "snd (ParseMessage lib p) = None"
    and "Type (fst (ParseMessage lib p)) = MessageTypeTerminalInput"
  shows "Connection_frame lib ops p (sh, c) =
       (sh, \<lparr>writes = writes c, clock = clock c,
             logs = logs c @ [LogUnhandledType MessageTypeTerminalInput], closed = closed c\<rparr>)
     \<and> HandlerDeps_frame lib p (s, c) = HandleInput lib (Data (fst (ParseMessage lib p))) (s, c)
     \<and> (\<exists>ms. writes (snd (HandlerDeps_frame lib p (s, c))) = writes c @ framesOf lib ms
           \<and> list_all (\<lambda>m. Type m = MessageTypeTerminalOutput) ms
           \<and> list_all (\<lambda>m. Type m \<noteq> MessageTypeTerminalError) ms)"
proof -
  obtain msg err where pm: "ParseMessage lib p = (msg, err)" by (cases "ParseMessage lib p")
  have ne: "MessageTypeTerminalInput \<noteq> MessageTypeConnectionRequest"
    by (simp add: MessageTypeTerminalInput_def MessageTypeConnectionRequest_def)
  have 1: "Connection_frame lib ops p (sh, c) =
       (sh, \<lparr>writes = writes c, clock = clock c,
             logs = logs c @ [LogUnhandledType MessageTypeTerminalInput], closed = closed c\<rparr>)"
    using assms ne Connection_frame_unhandled[of lib p ops sh c] by simp
  have 2: "HandlerDeps_frame lib p (s, c) = HandleInput lib (Data (fst (ParseMessage lib p))) (s, c)"
    using assms pm by (simp add: HandlerDeps_frame_def)
  obtain ms where ms: "writes (snd (HandlerDeps_frame lib p (s, c))) = writes c @ framesOf lib ms"
    "list_all (\<lambda>m. Type m = MessageTypeTerminalOutput) ms"
    using HandleInput_writes[of lib "Data (fst (ParseMessage lib p))" s c] 2 by auto
  have "MessageTypeTerminalOutput \<noteq> MessageTypeTerminalError"
    by (simp add: MessageTypeTerminalOutput_def MessageTypeTerminalError_def)
  with ms(2) have "list_all (\<lambda>m. Type m \<noteq> MessageTypeTerminalError) ms"
    by (simp add: list_all_iff)
  with 1 2 ms show ?thesis by blast
qed

text \<open>
  The theorem on the sample frame that carries the input \<^verbatim>\<open>a\<close>.
\<close>

theorem C3_terminal_input_not_filtered_witness:
  "snd (ParseMessage sampleLib frameInput) = None
   \<and> Type (fst (ParseMessage sampleLib frameInput)) = MessageTypeTerminalInput
   \<and> Connection_frame sampleLib sampleOps frameInput (NewShellConnection sampleOps, newConn) =
       (NewShellConnection sampleOps,
        \<lparr>writes = [], clock = 0, logs = [LogUnhandledType ''terminal_input''], closed = False\<rparr>)
   \<and> HandlerDeps_frame sampleLib frameInput (NewShellSession, newConn) =
       HandleInput sampleLib ''a'' (NewShellSession, newConn)"
proof -
  have h1: "snd (ParseMessage sampleLib frameInput) = None"
    by (simp add: sample_eval)
  have h2: "Type (fst (ParseMessage sampleLib frameInput)) = MessageTypeTerminalInput"
    by (simp add: sample_eval MessageTypeTerminalInput_def)
  have d: "Data (fst (ParseMessage sampleLib frameInput)) = ''a''"
    by (simp add: sample_eval)
  show ?thesis
    using h1 h2 d
      C3_terminal_input_not_filtered[OF h1 h2, where ops = sampleOps
        and sh = "NewShellConnection sampleOps" and c = newConn and s = NewShellSession]
    by (simp add: newConn_def MessageTypeTerminalInput_def)
qed

text \<open>
  Against claim C3 as stated: the payload \<^verbatim>\<open>a\<close> matches the sample rule, and still the
  simulated handler appends it to the shell's input buffer and echoes it as
  \<^verbatim>\<open>terminal_output\<close>, and the connection handler writes nothing at all: no
  \<^verbatim>\<open>terminal_error\<close> is sent.
\<close>

theorem C3_counterexample:
  "ruleMatches sampleRule ''a''
   \<and> ParseMessage sampleLib frameInput =
       (\<lparr>Type = ''terminal_input'', Data = ''a'', Timestamp = 0, Metadata = None\<rparr>, None)
   \<and> HandlerDeps_frame sampleLib frameInput (NewShellSession, newConn) =
       (\<lparr>currentInput = ''a'', prompt = ''user@webssh:~$ ''\<rparr>,
        \<lparr>writes = [\<lparr>Type = ''terminal_output'', Data = ''a'', Timestamp = 0,
                    Metadata = Some \<lparr>HasAnsi = False, ExitCode = None, Command = [],
                                      SSHHost = [], SSHUser = [], SessionID = []\<rparr>\<rparr>],
         clock = 1, logs = [], closed = False\<rparr>)
   \<and> Connection_frame sampleLib sampleOps frameInput (NewShellConnection sampleOps, newConn) =
       (NewShellConnection sampleOps,
        \<lparr>writes = [], clock = 0, logs = [LogUnhandledType ''terminal_input''], closed = False\<rparr>)"
proof -
  have 0: "ruleMatches sampleRule ''a''"
    by (simp add: ruleMatches_def sampleRule_def)
  have 1: "ParseMessage sampleLib frameInput =
       (\<lparr>Type = ''terminal_input'', Data = ''a'', Timestamp = 0, Metadata = None\<rparr>, None)"
    by (simp add: sample_eval)
  have 2: "HandlerDeps_frame sampleLib frameInput (NewShellSession, newConn) =
       (\<lparr>currentInput = ''a'', prompt = ''user@webssh:~$ ''\<rparr>,
        \<lparr>writes = [\<lparr>Type = ''terminal_output'', Data = ''a'', Timestamp = 0,
                    Metadata = Some \<lparr>HasAnsi = False, ExitCode = None, Command = [],
                                      SSHHost = [], SSHUser = [], SessionID = []\<rparr>\<rparr>],
         clock = 1, logs = [], closed = False\<rparr>)"
  proof -
    have "HandlerDeps_frame sampleLib frameInput (NewShellSession, newConn) =
        HandleInput sampleLib ''a'' (NewShellSession, newConn)"
      by (simp add: HandlerDeps_frame_def 1 MessageTypeTerminalInput_def)
    also have "\<dots> = (NewShellSession\<lparr>currentInput := ''a''\<rparr>, sendOutput sampleLib ''a'' newConn)"
      by (simp add: HandleInput_def NewShellSession_def)
    also have "sendOutput sampleLib ''a'' newConn =
        \<lparr>writes = [NewTerminalOutput 0 ''a'' [] None], clock = 1, logs = [], closed = False\<rparr>"
      by (simp add: sendOutput_def now_def writeJSON_def WriteMessage_def newConn_def
          sampleLib_def ToJSON_def)
    also have "NewTerminalOutput (0::nat) ''a'' [] None =
        \<lparr>Type = ''terminal_output'', Data = ''a'', Timestamp = 0,
         Metadata = Some \<lparr>HasAnsi = False, ExitCode = None, Command = [],
                           SSHHost = [], SSHUser = [], SessionID = []\<rparr>\<rparr>"
      by (simp add: NewTerminalOutput_def NewMessage_def MessageTypeTerminalOutput_def
          containsAnsiCodes_def ansiRegex_def)
    finally show ?thesis by (simp add: NewShellSession_def)
  qed
  have 3: "Connection_frame sampleLib sampleOps frameInput (NewShellConnection sampleOps, newConn) =
       (NewShellConnection sampleOps,
        \<lparr>writes = [], clock = 0, logs = [LogUnhandledType ''terminal_input''], closed = False\<rparr>)"
    by (simp add: Connection_frame_def 1 logLine_def MessageTypeConnectionRequest_def newConn_def)
  from 0 1 2 3 show ?thesis by blast
qed

section \<open>Sessions and the upgrade\<close>

text \<open>
  Claim C2, as the code has it. A handler has one shell for its connection: it is
  created right after the upgrade, before the first read, and the handler has one exactly
  when the upgrade succeeded, whatever the client sends afterwards. Nothing in either
  handler checks a credential. When the upgrade fails the handler logs and returns
  without a shell.
\<close>

theorem C2_session_follows_upgrade:
  "(fst (HandlerDeps_HandleWs lib upgraded reads c) \<noteq> None) = upgraded
   \<and> (fst (Connection_HandleWs lib ops upgraded reads c) \<noteq> None) = upgraded
   \<and> HandlerDeps_HandleWs lib False reads c =
       (None, \<lparr>writes = writes c, clock = clock c, logs = logs c @ [LogUpgradeError],
               closed = closed c\<rparr>)
   \<and> Connection_HandleWs lib ops False reads c =
       (None, \<lparr>writes = writes c, clock = clock c, logs = logs c @ [LogUpgradeError],
               closed = closed c\<rparr>)
   \<and> fst (HandlerDeps_HandleWs lib True [] c) = Some NewShellSession
   \<and> fst (Connection_HandleWs lib ops True [] c) = Some (NewShellConnection ops)"
proof -
  have 1: "(fst (HandlerDeps_HandleWs lib upgraded reads c) \<noteq> None) = upgraded"
    by (simp add: HandlerDeps_HandleWs_def Let_def split: prod.splits)
  have 2: "(fst (Connection_HandleWs lib ops upgraded reads c) \<noteq> None) = upgraded"
    by (simp add: Connection_HandleWs_def Let_def split: prod.splits)
  have 3: "HandlerDeps_HandleWs lib False reads c =
       (None, \<lparr>writes = writes c, clock = clock c, logs = logs c @ [LogUpgradeError],
               closed = closed c\<rparr>)"
    by (cases c) (simp add: HandlerDeps_HandleWs_def logLine_def)
  have 4: "Connection_HandleWs lib ops False reads c =
       (None, \<lparr>writes = writes c, clock = clock c, logs = logs c @ [LogUpgradeError],
               closed = closed c\<rparr>)"
    by (cases c) (simp add: Connection_HandleWs_def logLine_def)
  have 5: "fst (HandlerDeps_HandleWs lib True [] c) = Some NewShellSession"
    by (simp add: HandlerDeps_HandleWs_def Let_def split: prod.splits)
  have 6: "fst (Connection_HandleWs lib ops True [] c) = Some (NewShellConnection ops)"
    by (simp add: Connection_HandleWs_def Let_def split: prod.splits)
  from 1 2 3 4 5 6 show ?thesis by blast
qed

text \<open>
  Against claim C2 as stated: a client that has sent nothing, and so has not
  authenticated, already has its shell session, and the handler has logged that the
  session started.
\<close>

theorem C2_counterexample:
  "HandlerDeps_HandleWs sampleLib True [] newConn =
     (Some NewShellSession,
      \<lparr>writes = [NewConnectionStateMessage quotePlain 0 ConnectionStateConnected
                   ''WebSocket connection established''],
       clock = 1, logs = [LogNewConnection, LogSessionStarted], closed = False\<rparr>)
   \<and> Connection_HandleWs sampleLib sampleOps True [] newConn =
     (Some (NewShellConnection sampleOps),
      \<lparr>writes = [NewConnectionStateMessage quotePlain 0 ConnectionStateConnected
                   ''WebSocket connection established''],
       clock = 1, logs = [LogNewConnection, LogSessionStarted], closed = False\<rparr>)"
  by (simp add: HandlerDeps_HandleWs_def Connection_HandleWs_def sample_eval logLine_def now_def
      writeJSON_def WriteMessage_def)

end
